theory Spec2Isabelle
  imports
    Main
    "HOL-Library.Sublist"
    "HOL-Library.Char_ord"
    "HOL-Library.List_Lexorder"
    "HOL-Library.Signed_Division"
    "HOL-Library.Multiset"
begin

section \<open>Go strings and integers\<close>

text \<open>
  A Go string is a sequence of bytes, so it is a \<open>char list\<close> here and \<open>length\<close> is
  Go's \<open>len\<close>. Go's \<open>int\<close> is a 64-bit signed integer: it is an \<open>int\<close> here, with the
  wrap-around of a multiplication written out by \<open>wrap64\<close>, and \<open>sdiv\<close> is Go's
  division, which truncates towards zero.
\<close>

definition wrap64 :: "int \<Rightarrow> int" where
  "wrap64 x = (x + 2 ^ 63) mod 2 ^ 64 - 2 ^ 63"

text \<open>\<open>strings.HasPrefix\<close>, \<open>strings.TrimPrefix\<close> and \<open>strings.Contains\<close>.\<close>

definition HasPrefix :: "string \<Rightarrow> string \<Rightarrow> bool" where
  "HasPrefix s p = prefix p s"

definition TrimPrefix :: "string \<Rightarrow> string \<Rightarrow> string" where
  "TrimPrefix s p = (if HasPrefix s p then drop (length p) s else s)"

fun Contains :: "string \<Rightarrow> string \<Rightarrow> bool" where
  "Contains [] sub = (sub = [])"
| "Contains (c # s) sub = (prefix sub (c # s) \<or> Contains s sub)"

text \<open>
  \<open>strings.LastIndex s sub\<close>: the index of the last occurrence of \<open>sub\<close> in \<open>s\<close>,
  or \<open>-1\<close> when there is none.
\<close>

fun last_from :: "string \<Rightarrow> string \<Rightarrow> nat \<Rightarrow> int" where
  "last_from s sub 0 = (if prefix sub s then 0 else - 1)"
| "last_from s sub (Suc i) =
     (if prefix sub (drop (Suc i) s) then int (Suc i) else last_from s sub i)"

definition LastIndex :: "string \<Rightarrow> string \<Rightarrow> int" where
  "LastIndex s sub = last_from s sub (length s)"

text \<open>
  The slice expression \<open>s[:n]\<close> panics at run time unless \<open>0 \<le> n \<le> len(s)\<close>.
\<close>

datatype panic = SliceBoundsOutOfRange

definition slice_to :: "string \<Rightarrow> int \<Rightarrow> panic + string" where
  "slice_to s n =
     (if 0 \<le> n \<and> n \<le> int (length s) then Inr (take (nat n) s)
      else Inl SliceBoundsOutOfRange)"

section \<open>Text utilities (package util)\<close>

subsection \<open>InSlice\<close>

fun InSlice :: "string list \<Rightarrow> string \<Rightarrow> bool" where
  "InSlice [] item = False"
| "InSlice (s # slice) item = (if s = item then True else InSlice slice item)"

subsection \<open>TruncateText\<close>

definition TruncateText :: "string \<Rightarrow> int \<Rightarrow> panic + string" where
  "TruncateText text tokenLimit =
     (let estimated = int (length text) sdiv 4 in
      if estimated \<le> tokenLimit then Inr text
      else
        let maxChars = wrap64 (tokenLimit * 4) in
        case (if int (length text) > maxChars then slice_to text maxChars else Inr text) of
          Inl e \<Rightarrow> Inl e
        | Inr text1 \<Rightarrow>
            (let last = LastIndex text1 [CHR 0x0A] in
             if last > maxChars sdiv 2 then slice_to text1 last
             else
               let last2 = LastIndex text1 '' '' in
               if last2 > maxChars sdiv 2 then slice_to text1 last2
               else Inr text1))"

text \<open>
  The tail of \<open>TruncateText\<close> on the text already cut to \<open>m\<close> bytes, when no slice
  expression panics; used to state what the function returns.
\<close>

definition cut_at :: "string \<Rightarrow> int \<Rightarrow> string" where
  "cut_at text1 m =
     (let last = LastIndex text1 [CHR 0x0A] in
      if last > m div 2 then take (nat last) text1
      else
        let last2 = LastIndex text1 '' '' in
        if last2 > m div 2 then take (nat last2) text1 else text1)"

section \<open>White space, decimal numbers\<close>

text \<open>
  \<open>unicode.IsSpace\<close> (and the table of package fmt, which is a copy of it) holds for
  the runes U+0009 to U+000D, U+0020, U+0085, U+00A0, U+1680, U+2000 to U+200A, U+2028,
  U+2029, U+202F, U+205F and U+3000. \<open>space_width s\<close> is the number of bytes of the
  UTF-8 encoding of such a rune at the head of \<open>s\<close>, and \<open>0\<close> when \<open>s\<close> does not
  start with one. The lead bytes of these encodings are never continuation bytes, so a
  scan byte by byte finds the same runes as Go's decoding rune by rune.
\<close>

definition ascii_space :: "char \<Rightarrow> bool" where
  "ascii_space c = (c = CHR 0x09 \<or> c = CHR 0x0A \<or> c = CHR 0x0B \<or> c = CHR 0x0C \<or>
     c = CHR 0x0D \<or> c = CHR 0x20)"

fun space_width :: "string \<Rightarrow> nat" where
  "space_width [] = 0"
| "space_width (c # r) =
     (if ascii_space c then 1
      else if c = CHR 0xC2 then
        (case r of d # _ \<Rightarrow> if d = CHR 0x85 \<or> d = CHR 0xA0 then 2 else 0 | [] \<Rightarrow> 0)
      else if c = CHR 0xE1 then (if take 2 r = [CHR 0x9A, CHR 0x80] then 3 else 0)
      else if c = CHR 0xE2 then
        (case take 2 r of
           [d, e] \<Rightarrow>
             if d = CHR 0x80 \<and> ((CHR 0x80 \<le> e \<and> e \<le> CHR 0x8A) \<or> e = CHR 0xA8 \<or>
                  e = CHR 0xA9 \<or> e = CHR 0xAF) then 3
             else if d = CHR 0x81 \<and> e = CHR 0x9F then 3
             else 0
         | _ \<Rightarrow> 0)
      else if c = CHR 0xE3 then (if take 2 r = [CHR 0x80, CHR 0x80] then 3 else 0)
      else 0)"

text \<open>
  The same for the last rune of a string, as \<open>utf8.DecodeLastRuneInString\<close> finds it:
  the argument is the string reversed.
\<close>

fun space_width_last :: "string \<Rightarrow> nat" where
  "space_width_last [] = 0"
| "space_width_last (c # r) =
     (if ascii_space c then 1
      else if (c = CHR 0x85 \<or> c = CHR 0xA0) \<and> take 1 r = [CHR 0xC2] then 2
      else if c = CHR 0x80 \<and> take 2 r = [CHR 0x9A, CHR 0xE1] then 3
      else if ((CHR 0x80 \<le> c \<and> c \<le> CHR 0x8A) \<or> c = CHR 0xA8 \<or> c = CHR 0xA9 \<or>
               c = CHR 0xAF) \<and> take 2 r = [CHR 0x80, CHR 0xE2] then 3
      else if c = CHR 0x9F \<and> take 2 r = [CHR 0x81, CHR 0xE2] then 3
      else if c = CHR 0x80 \<and> take 2 r = [CHR 0x80, CHR 0xE3] then 3
      else 0)"

text \<open>\<open>strings.TrimSpace\<close>: leading and trailing white space removed.\<close>

function trim_left :: "string \<Rightarrow> string" where
  "trim_left s = (if space_width s = 0 then s else trim_left (drop (space_width s) s))"
  by pat_completeness auto
termination
proof (relation "measure length")
  fix s :: string
  assume "space_width s \<noteq> 0"
  then have "s \<noteq> []" by auto
  with \<open>space_width s \<noteq> 0\<close> show "(drop (space_width s) s, s) \<in> measure length" by simp
qed simp

function trim_right_rev :: "string \<Rightarrow> string" where
  "trim_right_rev r =
     (if space_width_last r = 0 then r else trim_right_rev (drop (space_width_last r) r))"
  by pat_completeness auto
termination
proof (relation "measure length")
  fix r :: string
  assume "space_width_last r \<noteq> 0"
  then have "r \<noteq> []" by auto
  with \<open>space_width_last r \<noteq> 0\<close> show "(drop (space_width_last r) r, r) \<in> measure length" by simp
qed simp

declare trim_left.simps [simp del] trim_right_rev.simps [simp del]

definition TrimSpace :: "string \<Rightarrow> string" where
  "TrimSpace s = rev (trim_right_rev (rev (trim_left s)))"

text \<open>
  \<open>strings.Fields\<close>: the maximal runs of bytes that hold no white space rune.
  \<open>fields_from cur s\<close> scans \<open>s\<close> with the field \<open>cur\<close> open.
\<close>

function fields_from :: "string \<Rightarrow> string \<Rightarrow> string list" where
  "fields_from cur s =
     (if s = [] then (if cur = [] then [] else [cur])
      else if space_width s = 0 then fields_from (cur @ [hd s]) (tl s)
      else (if cur = [] then [] else [cur]) @ fields_from [] (drop (space_width s) s))"
  by pat_completeness auto
termination
proof (relation "measure (\<lambda>(cur, s). length s)")
  fix cur s :: string
  assume "s \<noteq> []"
  then show "((cur @ [hd s], tl s), (cur, s)) \<in> measure (\<lambda>(cur, s). length s)" by simp
next
  fix cur s :: string
  assume "s \<noteq> []" "space_width s \<noteq> 0"
  then show "(([], drop (space_width s) s), (cur, s)) \<in> measure (\<lambda>(cur, s). length s)"
    by simp
qed simp

declare fields_from.simps [simp del]

definition Fields :: "string \<Rightarrow> string list" where
  "Fields s = fields_from [] s"

text \<open>\<open>strings.Join\<close>.\<close>

fun Join :: "string list \<Rightarrow> string \<Rightarrow> string" where
  "Join [] sep = []"
| "Join [x] sep = x"
| "Join (x # y # ys) sep = x @ sep @ Join (y # ys) sep"

text \<open>
  \<open>strings.Split s sep\<close> for a separator of one byte, which is how the program
  calls it: the pieces between the occurrences of the byte, one more than there are
  occurrences.
\<close>

fun Split :: "string \<Rightarrow> char \<Rightarrow> string list" where
  "Split [] sep = [[]]"
| "Split (c # s) sep =
     (if c = sep then [] # Split s sep
      else (case Split s sep of [] \<Rightarrow> [[c]] | p # ps \<Rightarrow> (c # p) # ps))"

text \<open>
  Decimal numerals. \<open>Itoa\<close> is \<open>strconv.Itoa\<close>, which is also what the verb \<open>%d\<close> of
  \<open>fmt.Sprintf\<close> prints.
\<close>

definition isDigit :: "char \<Rightarrow> bool" where
  "isDigit c = (CHR ''0'' \<le> c \<and> c \<le> CHR ''9'')"

definition digit_val :: "char \<Rightarrow> nat" where
  "digit_val c = of_char c - 48"

definition dec_val :: "string \<Rightarrow> nat" where
  "dec_val ds = foldl (\<lambda>a c. 10 * a + digit_val c) 0 ds"

definition digit_char :: "nat \<Rightarrow> char" where
  "digit_char d = ''0123456789'' ! d"

fun nat_dec :: "nat \<Rightarrow> string" where
  "nat_dec n =
     (if n < 10 then [digit_char n]
      else nat_dec (n div 10) @ [digit_char (n mod 10)])"

declare nat_dec.simps [simp del]

definition Itoa :: "int \<Rightarrow> string" where
  "Itoa i = (if i < 0 then CHR ''-'' # nat_dec (nat (- i)) else nat_dec (nat i))"

text \<open>
  The text of a signed decimal numeral as \<open>strconv.ParseInt tok 10 64\<close> reads it:
  an optional sign and at least one digit, the value within the 64-bit range.
\<close>

definition in_int64 :: "int \<Rightarrow> bool" where
  "in_int64 v = (- (2 ^ 63) \<le> v \<and> v < 2 ^ 63)"

definition signed_val :: "bool \<Rightarrow> string \<Rightarrow> int option" where
  "signed_val neg ds =
     (if ds = [] then None
      else
        let v = (if neg then - int (dec_val ds) else int (dec_val ds)) in
        if in_int64 v then Some v else None)"

text \<open>
  \<open>fmt.Sscanf(p, "%d", &idx)\<close>: the result is \<open>Some idx\<close> when the error is nil.
  The scanner skips leading white space and fails on a newline there
  (\<open>SkipSpace\<close> outside the line-oriented modes), fails at the end of the input, accepts
  one sign, then takes the longest run of decimal digits, which must not be empty, and
  parses it; what follows the digits is not read.
\<close>

function SkipSpace :: "string \<Rightarrow> string option" where
  "SkipSpace s =
     (if s = [] then Some []
      else if hd s = CHR 0x0A then None
      else if space_width s = 0 then Some s
      else SkipSpace (drop (space_width s) s))"
  by pat_completeness auto
termination
proof (relation "measure length")
  fix s :: string
  assume "s \<noteq> []" "space_width s \<noteq> 0"
  then show "(drop (space_width s) s, s) \<in> measure length" by simp
qed simp

declare SkipSpace.simps [simp del]

definition Sscanf_d :: "string \<Rightarrow> int option" where
  "Sscanf_d p =
     (case SkipSpace p of
        None \<Rightarrow> None
      | Some [] \<Rightarrow> None
      | Some (c # r) \<Rightarrow>
          (let neg = (c = CHR ''-'');
               r1 = (if c = CHR ''+'' \<or> c = CHR ''-'' then r else c # r)
           in signed_val neg (takeWhile isDigit r1)))"

text \<open>
  \<open>strconv.Atoi\<close>: the whole text must be a signed decimal numeral.
\<close>

definition Atoi :: "string \<Rightarrow> int option" where
  "Atoi s =
     (case s of
        [] \<Rightarrow> None
      | c # r \<Rightarrow>
          (let neg = (c = CHR ''-'');
               r1 = (if c = CHR ''+'' \<or> c = CHR ''-'' then r else c # r)
           in if list_all isDigit r1 then signed_val neg r1 else None))"

section \<open>JSON values and ExtractJSONPath\<close>

text \<open>
  What \<open>json.Unmarshal\<close> stores in an \<open>interface{}\<close>: \<open>nil\<close> for null, a bool, a
  \<open>float64\<close> (left abstract as the type \<open>'f\<close>), a string, a slice, or a map from
  strings, here an association list read with \<open>map_of\<close>. \<open>JNil\<close> is also the zero value
  a map gives for a missing key, and the value the function returns for "absent".
\<close>

datatype 'f json =
    JNil
  | JBool bool
  | JNum 'f
  | JStr string
  | JArr "'f json list"
  | JObj "(string \<times> 'f json) list"

datatype index_panic = IndexOutOfRange

text \<open>The index expression \<open>arr[idx]\<close>, which panics out of range.\<close>

definition index_at :: "'a list \<Rightarrow> int \<Rightarrow> index_panic + 'a" where
  "index_at arr idx =
     (if 0 \<le> idx \<and> idx < int (length arr) then Inr (arr ! nat idx) else Inl IndexOutOfRange)"

text \<open>
  One round of the loop of \<open>ExtractJSONPath\<close>: \<open>Inr (Some cur')\<close> to go on with
  \<open>cur'\<close>, \<open>Inr None\<close> for \<open>return nil\<close>, \<open>Inl\<close> for a panic.
\<close>

definition ExtractJSONPath_step :: "'f json \<Rightarrow> string \<Rightarrow> index_panic + 'f json option" where
  "ExtractJSONPath_step cur p =
     (case cur of
        JObj m \<Rightarrow> Inr (Some (case map_of m p of None \<Rightarrow> JNil | Some v \<Rightarrow> v))
      | JArr arr \<Rightarrow>
          (case Sscanf_d p of
             Some idx \<Rightarrow>
               if idx \<ge> 0 \<and> idx < int (length arr)
               then (case index_at arr idx of Inl e \<Rightarrow> Inl e | Inr v \<Rightarrow> Inr (Some v))
               else Inr None
           | None \<Rightarrow> Inr None)
      | _ \<Rightarrow> Inr None)"

fun ExtractJSONPath_loop :: "'f json \<Rightarrow> string list \<Rightarrow> index_panic + 'f json" where
  "ExtractJSONPath_loop cur [] = Inr cur"
| "ExtractJSONPath_loop cur (p # ps) =
     (case ExtractJSONPath_step cur p of
        Inl e \<Rightarrow> Inl e
      | Inr None \<Rightarrow> Inr JNil
      | Inr (Some cur') \<Rightarrow> ExtractJSONPath_loop cur' ps)"

definition ExtractJSONPath :: "'f json \<Rightarrow> string \<Rightarrow> index_panic + 'f json" where
  "ExtractJSONPath root path =
     (if path = [] then Inr root else ExtractJSONPath_loop root (Split path (CHR ''.'')))"

section \<open>Bot configuration and command execution (package bot)\<close>

text \<open>
  \<open>BotCommand\<close> with the fields the program reads; the field \<open>Params\<close>, a map of
  arbitrary JSON values that nothing reads, is left out. \<open>BotConfig.Commands\<close> is a Go
  map: here an association list, read with \<open>map_of\<close>, whose order stands for the
  unspecified order in which Go iterates over the map.
\<close>

record BotCommand =
  Type :: string
  Method :: string
  URL :: string
  Headers :: "(string \<times> string) list"
  JSONPath :: string
  ResponseType :: string
  Command :: string
  Args :: "string list"
  InputType :: string
  OutputType :: string
  Model :: string
  MaxTokens :: int
  Prompt :: string
  Response :: string
  Mention :: bool

record BotConfig =
  Label :: string
  Commands :: "(string \<times> BotCommand) list"

text \<open>
  Errors are values: a Go result \<open>(v, err)\<close> is \<open>Inl msg\<close> for a non-nil error with the
  message \<open>msg\<close>, and \<open>Inr v\<close> otherwise.

  \<open>LoadBotConfig\<close> opens the file and decodes it. The file system and the decoder of
  \<open>encoding/json\<close> are parameters: \<open>fs path\<close> is the content of the file or the error of
  \<open>os.Open\<close>, and \<open>decode\<close> is \<open>json.NewDecoder(f).Decode\<close> into a \<open>BotConfig\<close>.
\<close>

definition LoadBotConfig ::
  "(string \<Rightarrow> string + string) \<Rightarrow> (string \<Rightarrow> string + BotConfig) \<Rightarrow> string \<Rightarrow> string + BotConfig"
where
  "LoadBotConfig fs decode path =
     (case fs path of
        Inl err \<Rightarrow> Inl (''open '' @ path @ '': '' @ err)
      | Inr f \<Rightarrow>
          (case decode f of
             Inl err \<Rightarrow> Inl (''decode '' @ path @ '': '' @ err)
           | Inr bc \<Rightarrow> Inr bc))"

text \<open>
  A Matrix event as the program reads it. The content is what
  \<open>db.ProcessMessageEvent\<close> makes of it: a parse error, no message content, or a message
  with its type, its body and the event it replies to (\<open>RelatesTo.InReplyTo.EventID\<close>).
\<close>

record MessageEventContent =
  MsgType :: string
  Body :: string
  InReplyTo :: "string option"

datatype content = ParseError string | NotAMessage | Message MessageEventContent

record Event =
  RoomID :: string
  ID :: string
  Sender :: string
  Timestamp :: int
  Content :: content

text \<open>
  The four handlers behind \<open>FetchBotCommand\<close> call the network, run programs and
  post messages. They are parameters here: each returns what it did, a list of effects of
  an abstract type \<open>'e\<close>, and its Go result.
\<close>

record 'e handlers =
  handleHttpCommand :: "BotCommand \<Rightarrow> string \<Rightarrow> Event \<Rightarrow> 'e list \<times> (string + string)"
  handleExecCommand :: "Event \<Rightarrow> BotCommand \<Rightarrow> 'e list \<times> (string + string)"
  handleAiCommand :: "Event \<Rightarrow> BotCommand \<Rightarrow> string \<Rightarrow> string \<Rightarrow> 'e list \<times> (string + string)"
  handleBuiltinCommand :: "Event \<Rightarrow> BotCommand \<Rightarrow> string \<Rightarrow> 'e list \<times> (string + string)"

definition FetchBotCommand ::
  "'e handlers \<Rightarrow> BotCommand \<Rightarrow> string \<Rightarrow> Event \<Rightarrow> string \<Rightarrow> string \<Rightarrow> 'e list \<times> (string + string)"
where
  "FetchBotCommand H c linkstashURL ev groqAPIKey replyLabel =
     (if Response c \<noteq> [] then ([], Inr (Response c))
      else if Type c = ''http'' then handleHttpCommand H c linkstashURL ev
      else if Type c = ''exec'' then handleExecCommand H ev c
      else if Type c = ''ai'' then handleAiCommand H ev c groqAPIKey replyLabel
      else if Type c = ''builtin'' then handleBuiltinCommand H ev c replyLabel
      else ([], Inl (''unknown command type: '' @ Type c)))"

subsection \<open>Knock-knock jokes\<close>

record KnockKnockJoke =
  Name :: string
  Punchline :: string

definition joke :: "string \<Rightarrow> string \<Rightarrow> KnockKnockJoke" where
  "joke n p = \<lparr>Name = n, Punchline = p\<rparr>"

text \<open>
  The jokes of the program. Bytes outside ASCII are written out: U+203C U+FE0F is
  \<open>E2 80 BC EF B8 8F\<close> and U+00E9 is \<open>C3 A9\<close>.
\<close>

definition bangbang :: string where
  "bangbang = [CHR 0xE2, CHR 0x80, CHR 0xBC, CHR 0xEF, CHR 0xB8, CHR 0x8F]"

definition KnockKnockJokes :: "KnockKnockJoke list" where
  "KnockKnockJokes =
    [joke ''Lettuce'' ''Lettuce in, it's cold out here!'',
     joke ''Atch'' ''Bless you!'',
     joke ''Nobel'' ''Nobel, that's why I knocked!'',
     joke ''Cow says'' ''No, a cow says moo!'',
     joke ''Interrupting cow'' ''MOO!'',
     joke ''Who'' (bangbang @ '' That's the sound of da police '' @ bangbang),
     joke ''Boo'' ''Don't cry, it's just a joke!'',
     joke ''Tank'' ''You're welcome!'',
     joke ''Broken pencil'' ''Never mind, it's pointless.'',
     joke ''Dishes'' ''Dishes the police, open up!'',
     joke ''Honey bee'' ''Honey bee a dear and open the door!'',
     joke ''Ice cream'' ''Ice cream every time I see a scary movie!'',
     joke ''Olive'' ''Olive you and I don't care who knows it!'',
     joke ''Harry'' ''Harry up and answer the door!'',
     joke ''Canoe'' ''Canoe help me with my homework?'',
     joke ''Annie'' ''Annie thing you can do, I can do better!'',
     joke ''Woo'' ''Don't get so excited, it's just a joke!'',
     joke (''D'' @ [CHR 0xC3, CHR 0xA9] @ ''ja'') ''Knock knock.'',
     joke ''Spell'' ''W-H-O'',
     joke ''Yukon'' ''Yukon say that again!'',
     joke ''Alpaca'' ''Alpaca the suitcase, you load the car!'',
     joke ''Needle'' ''Needle little help getting in!'',
     joke ''Butch'' ''Butch your arms around me!'',
     joke ''Mikey'' ''Mikey doesn't fit in the lock!'',
     joke ''Iva'' ''Iva sore hand from knocking!'',
     joke ''Figs'' ''Figs the doorbell, it's broken!'',
     joke ''Ketchup'' ''Ketchup with me and I'll tell you!'',
     joke ''Wooden shoe'' ''Wooden shoe like to hear another joke?'',
     joke ''Owls say'' ''Yes, they do!'',
     joke ''To'' ''To whom.'',
     joke ''Banana'' ''Banana split, let's get out of here!'',
     joke ''Justin'' ''Justin time for dinner!'',
     joke ''Water'' ''Water you doing in my house?'',
     joke ''Nana'' ''Nana your business!'',
     joke ''Doris'' ''Doris locked, that's why I'm knocking!'',
     joke ''Europe'' ''Europe next to open the door!'',
     joke ''Abby'' ''Abby birthday to you!'',
     joke ''Luke'' ''Luke through the peephole and find out!'',
     joke ''Ash'' ''Ash you a question, but you might not like it!'',
     joke ''Cargo'' ''Car go beep beep, vroom vroom!'',
     joke ''Howard'' ''Howard I know? I forgot!'',
     joke ''Wendy'' ''Wendy wind blows the cradle will rock!'',
     joke ''Noah'' ''Noah good place to eat around here?'',
     joke ''Al'' ''Al give you a hug if you open this door!'',
     joke ''Cows go'' ''No they don't, cows go moo!'',
     joke ''Stopwatch'' ''Stopwatch you're doing and open the door!'',
     joke ''Radio'' ''Radio not, here I come!'']"

text \<open>
  \<open>KnockKnockStep\<close> and the store \<open>KnockKnockState\<close>: the Go map \<open>pending\<close> from event
  ids to steps is a HOL map. The mutex makes each of \<open>Set\<close>, \<open>Get\<close> and \<open>Delete\<close> one
  atomic step, which is how they are modelled; \<open>Set\<close> and \<open>Delete\<close> return the new store.
  The three methods are \<open>Set_step\<close>, \<open>Get_step\<close> and \<open>Delete_step\<close> here, and the field
  \<open>Label\<close> of a step is \<open>StepLabel\<close>, since \<open>Label\<close> is the field of \<open>BotConfig\<close>.
\<close>

record KnockKnockStep =
  Joke :: KnockKnockJoke
  Step :: int
  StepLabel :: string

record KnockKnockState =
  pending :: "string \<rightharpoonup> KnockKnockStep"

definition NewKnockKnockState :: KnockKnockState where
  "NewKnockKnockState = \<lparr>pending = Map.empty\<rparr>"

definition Set_step :: "KnockKnockState \<Rightarrow> string \<Rightarrow> KnockKnockStep \<Rightarrow> KnockKnockState" where
  "Set_step s evID step = s\<lparr>pending := (pending s)(evID \<mapsto> step)\<rparr>"

definition Get_step :: "KnockKnockState \<Rightarrow> string \<Rightarrow> KnockKnockStep option" where
  "Get_step s evID = pending s evID"

definition Delete_step :: "KnockKnockState \<Rightarrow> string \<Rightarrow> KnockKnockState" where
  "Delete_step s evID = s\<lparr>pending := (pending s)(evID := None)\<rparr>"

section \<open>The router (package app)\<close>

text \<open>
  The configuration, with the fields the router reads. \<open>AllowedCommands\<close> is a Go
  slice that may be nil: \<open>None\<close> is nil (the key absent from the configuration, or
  null) and \<open>Some []\<close> is the empty list. The field \<open>ID\<close> of a room entry is
  \<open>EntryID\<close> here, since \<open>ID\<close> is the field of \<open>Event\<close>.
\<close>

record RoomIDEntry =
  EntryID :: string
  Comment :: string
  Hook :: string
  Key :: string
  SendUser :: bool
  SendTopic :: bool
  AllowedCommands :: "string list option"

record Config =
  RoomIDs :: "RoomIDEntry list"
  BotReplyLabel :: string
  LinkstashURL :: string
  GroqAPIKey :: string
  DryRun :: bool
  OptOutTag :: string

text \<open>
  The table \<open>messages\<close> of the database, one record per row, each field named after its
  column (the column \<open>raw_json\<close> is left out), and \<open>StoreMessage\<close>, whose \<open>INSERT OR IGNORE\<close> keeps the row already
  stored under a primary key.
\<close>

record row =
  row_id :: string
  row_room_id :: string
  row_sender :: string
  row_ts_ms :: int
  row_body :: string
  row_msgtype :: string

definition StoreMessage :: "row list \<Rightarrow> Event \<Rightarrow> MessageEventContent \<Rightarrow> row list" where
  "StoreMessage db ev msg =
     (if ID ev \<in> set (map row_id db) then db
      else db @ [\<lparr>row_id = ID ev, row_room_id = RoomID ev, row_sender = Sender ev,
                   row_ts_ms = Timestamp ev, row_body = Body msg,
                   row_msgtype = MsgType msg\<rparr>])"

text \<open>
  \<open>App\<close>. The pointers \<open>Cfg\<close>, \<open>Client\<close> and \<open>KnockKnock\<close> are set by \<open>run\<close> before
  any event is handled and are never nil; \<open>BotCfg\<close> is nil when the bot configuration
  could not be loaded.
\<close>

record App =
  Cfg :: Config
  MessagesDB :: "row list"
  BotCfg :: "BotConfig option"
  KnockKnock :: KnockKnockState

text \<open>
  What one call of \<open>HandleMessage\<close> gets from outside: the handlers, the error of the
  database if the insertion fails, whether the ready channel was closed before the
  context was cancelled, what \<open>SendMessageEvent\<close> returns to the knock-knock code (an
  error, or the id of the event sent), and the random number drawn for the joke.
\<close>

record 'e world =
  handlers :: "'e handlers"
  store_error :: "string option"
  ready :: bool
  send_result :: "string + string"
  rnd :: nat

text \<open>
  What the router does, as the list of its calls: \<open>Send room event body\<close> is
  \<open>Client.SendMessageEvent\<close> with a text message \<open>body\<close> in reply to \<open>event\<close>;
  \<open>Fetch c\<close> is the call of \<open>bot.FetchBotCommand\<close> with the command \<open>c\<close>, and
  the \<open>Effect\<close>s after it are the effects of its handler; \<open>DeleteLater id\<close> starts the goroutine that
  deletes the entry \<open>id\<close> of the knock-knock store after five minutes; \<open>ProcessLinks\<close>
  is the link handling. The goroutines that \<open>dispatchBotCommand\<close> starts run to their
  end within the call. The goroutine that \<open>HandleMessage\<close> starts for a knock-knock
  reply does not: \<open>GoReply ev step id\<close> is the statement
  \<open>go app.handleKnockKnockReply(evCtx, ev, step, id)\<close>, which only starts it. The
  goroutine runs later, on the store as it is by then, and other messages may be handled
  before it; what it does is \<open>handleKnockKnockReply\<close> below.
\<close>

datatype 'e action =
    Send string string string
  | Fetch BotCommand
  | Effect 'e
  | DeleteLater string
  | GoReply Event KnockKnockStep string
  | ProcessLinks

definition ResolveReplyLabel :: "Config option \<Rightarrow> BotConfig option \<Rightarrow> string" where
  "ResolveReplyLabel cfg botCfg =
     (case cfg of
        Some c \<Rightarrow>
          if BotReplyLabel c \<noteq> [] then BotReplyLabel c
          else (case botCfg of
                  Some b \<Rightarrow> if Label b \<noteq> [] then Label b else ''> ''
                | None \<Rightarrow> ''> '')
      | None \<Rightarrow>
          (case botCfg of
             Some b \<Rightarrow> if Label b \<noteq> [] then Label b else ''> ''
           | None \<Rightarrow> ''> ''))"

definition SendBotReply :: "string \<Rightarrow> string \<Rightarrow> string \<Rightarrow> string \<Rightarrow> 'e action list" where
  "SendBotReply roomID eventID body cmd = [Send roomID eventID body]"

text \<open>
  \<open>GenerateHelpMessage\<close>; \<open>help_names\<close> is its slice \<open>cmds\<close> after \<open>sort.Strings\<close>,
  which orders strings byte by byte, as the order on \<open>char list\<close> does.
\<close>

definition help_names :: "BotConfig \<Rightarrow> string list \<Rightarrow> string list" where
  "help_names botCfg allowedCommands =
     sort (if length allowedCommands > 0 then allowedCommands
           else map fst (Commands botCfg))"

definition GenerateHelpMessage :: "BotConfig \<Rightarrow> string list \<Rightarrow> string" where
  "GenerateHelpMessage botCfg allowedCommands =
     ''Available commands: '' @ Join (help_names botCfg allowedCommands) '', ''"

definition zero_room :: RoomIDEntry where
  "zero_room = \<lparr>EntryID = [], Comment = [], Hook = [], Key = [], SendUser = False,
     SendTopic = False, AllowedCommands = None\<rparr>"

fun findRoom_in :: "RoomIDEntry list \<Rightarrow> string \<Rightarrow> RoomIDEntry \<times> bool" where
  "findRoom_in [] roomID = (zero_room, False)"
| "findRoom_in (r # rs) roomID = (if roomID = EntryID r then (r, True) else findRoom_in rs roomID)"

definition findRoom :: "App \<Rightarrow> string \<Rightarrow> RoomIDEntry \<times> bool" where
  "findRoom app roomID = findRoom_in (RoomIDs (Cfg app)) roomID"

text \<open>The slice of Go given by \<open>len(allowed)\<close>: nil has length 0.\<close>

definition allowed_list :: "RoomIDEntry \<Rightarrow> string list" where
  "allowed_list room = (case AllowedCommands room of None \<Rightarrow> [] | Some xs \<Rightarrow> xs)"

definition startKnockKnock ::
  "'e world \<Rightarrow> App \<Rightarrow> Event \<Rightarrow> string \<Rightarrow> 'e action list \<times> KnockKnockState" where
  "startKnockKnock w app ev label =
     (let jk = KnockKnockJokes ! (rnd w mod length KnockKnockJokes);
          body = label @ ''Knock knock! (reply to this message)'';
          sent = Send (RoomID ev) (ID ev) body
      in case send_result w of
           Inl err \<Rightarrow> ([sent], KnockKnock app)
         | Inr respEventID \<Rightarrow>
             ([sent, DeleteLater respEventID],
              Set_step (KnockKnock app) respEventID
                \<lparr>Joke = jk, Step = 0, StepLabel = label\<rparr>))"

text \<open>
  \<open>handleKnockKnockReply\<close>, the body of the goroutine for a knock-knock reply, from
  the store it finds when it runs: \<open>Delete\<close>, the send, then \<open>Set\<close>, taken as one
  step. \<open>run_reply\<close> runs a goroutine that was started with \<open>GoReply\<close>.
\<close>

definition handleKnockKnockReply ::
  "'e world \<Rightarrow> App \<Rightarrow> Event \<Rightarrow> KnockKnockStep \<Rightarrow> string \<Rightarrow> 'e action list \<times> KnockKnockState"
where
  "handleKnockKnockReply w app ev step origEventID =
     (let kk = Delete_step (KnockKnock app) origEventID in
      if Step step = 0 then
        (let body = StepLabel step @ Name (Joke step) @ '' (reply to this message)'';
             sent = Send (RoomID ev) (ID ev) body
         in case send_result w of
              Inl err \<Rightarrow> ([sent], kk)
            | Inr respEventID \<Rightarrow>
                ([sent, DeleteLater respEventID],
                 Set_step kk respEventID
                   \<lparr>Joke = Joke step, Step = 1, StepLabel = StepLabel step\<rparr>))
      else
        (SendBotReply (RoomID ev) (ID ev) (StepLabel step @ Punchline (Joke step)) ''knockknock'',
         kk))"


text \<open>
  The command name that \<open>dispatchBotCommand\<close> reads from the body of the message.
\<close>

definition command_name :: "string \<Rightarrow> string" where
  "command_name msgBody =
     (let normalizedBody =
            (if HasPrefix msgBody ''@gork''
             then ''/bot gork '' @ TrimSpace (TrimPrefix msgBody ''@gork'')
             else msgBody);
          parts = Fields normalizedBody
      in if length parts \<ge> 2 \<and> parts ! 1 \<noteq> [] then parts ! 1 else ''hi'')"

text \<open>
  \<open>dispatchBotCommand\<close>, in two parts: \<open>run_command\<close> is the body of the function
  from the test \<open>app.BotCfg == nil\<close> on, which is what a command that passes the
  permission check comes to.
\<close>

definition run_command ::
  "'e world \<Rightarrow> App \<Rightarrow> Event \<Rightarrow> RoomIDEntry \<Rightarrow> string \<Rightarrow> string \<Rightarrow>
     'e action list \<times> KnockKnockState"
where
  "run_command w app ev room cmd label =
     (case BotCfg app of
        None \<Rightarrow>
          (SendBotReply (RoomID ev) (ID ev) (label @ ''no bot configuration loaded'') cmd,
           KnockKnock app)
      | Some botCfg \<Rightarrow>
          (if cmd = ''help'' then
             (SendBotReply (RoomID ev) (ID ev)
                (label @ GenerateHelpMessage botCfg (allowed_list room)) cmd,
              KnockKnock app)
           else
             (case map_of (Commands botCfg) cmd of
                None \<Rightarrow>
                  (SendBotReply (RoomID ev) (ID ev)
                     (label @ ''Unknown command. '' @
                        GenerateHelpMessage botCfg (allowed_list room)) cmd,
                   KnockKnock app)
              | Some cmdCfg \<Rightarrow>
                  (if Type cmdCfg = ''builtin'' \<and> Command cmdCfg = ''knockknock''
                   then startKnockKnock w app ev label
                   else
                     (case FetchBotCommand (handlers w) cmdCfg (LinkstashURL (Cfg app)) ev
                             (GroqAPIKey (Cfg app)) label of
                        (effs, Inl err) \<Rightarrow>
                          (Fetch cmdCfg # map Effect effs @
                             SendBotReply (RoomID ev) (ID ev)
                               (label @ ''sorry, couldn't execute '' @ cmd @ '' right now'') cmd,
                           KnockKnock app)
                      | (effs, Inr resp) \<Rightarrow>
                          (if resp \<noteq> [] then
                             (Fetch cmdCfg # map Effect effs @
                                SendBotReply (RoomID ev) (ID ev) (label @ resp) cmd,
                              KnockKnock app)
                           else (Fetch cmdCfg # map Effect effs, KnockKnock app)))))))"

definition dispatchBotCommand ::
  "'e world \<Rightarrow> App \<Rightarrow> Event \<Rightarrow> MessageEventContent \<Rightarrow> RoomIDEntry \<Rightarrow>
     'e action list \<times> KnockKnockState"
where
  "dispatchBotCommand w app ev msg room =
     (if DryRun (Cfg app) then ([], KnockKnock app)
      else if \<not> ready w then ([], KnockKnock app)
      else
        let cmd = command_name (Body msg);
            label = ResolveReplyLabel (Some (Cfg app)) (BotCfg app)
        in
        if length (allowed_list room) > 0 \<and> \<not> InSlice (allowed_list room) cmd \<and> cmd \<noteq> ''hi''
        then (SendBotReply (RoomID ev) (ID ev) (label @ ''command not allowed in this room'') cmd,
              KnockKnock app)
        else run_command w app ev room cmd label)"

text \<open>
  \<open>HandleMessage\<close>. The result names the way the message went, in the words of the
  specification: \<open>Ignored\<close> for every early return, \<open>ConversationContinuation\<close> for the
  knock-knock reply, \<open>Command\<close> for \<open>dispatchBotCommand\<close>, \<open>PassThrough\<close> for the link
  handling; then the calls made, and the new state of the application. For a knock-knock
  reply the function reads the store with \<open>Get\<close>, starts the goroutine and returns: the
  store is as it was.
\<close>

datatype route = Ignored | ConversationContinuation | Command | PassThrough

text \<open>
  The test for a knock-knock continuation: the message is a reply, and the store has an
  entry under the id of the event replied to (found with \<open>Get\<close>, which leaves it there).
\<close>

definition pending_reply :: "App \<Rightarrow> MessageEventContent \<Rightarrow> (KnockKnockStep \<times> string) option" where
  "pending_reply app msg =
     (case InReplyTo msg of
        None \<Rightarrow> None
      | Some target \<Rightarrow>
          (case Get_step (KnockKnock app) target of
             None \<Rightarrow> None
           | Some step \<Rightarrow> Some (step, target)))"

definition HandleMessage :: "'e world \<Rightarrow> App \<Rightarrow> Event \<Rightarrow> route \<times> 'e action list \<times> App" where
  "HandleMessage w app ev =
     (case findRoom app (RoomID ev) of
        (currentRoom, ok) \<Rightarrow>
          (if length (RoomIDs (Cfg app)) > 0 \<and> \<not> ok then (Ignored, [], app)
           else
             (case Content ev of
                ParseError err \<Rightarrow> (Ignored, [], app)
              | NotAMessage \<Rightarrow> (Ignored, [], app)
              | Message msg \<Rightarrow>
                  (if Body msg = [] then (Ignored, [], app)
                   else
                     (case store_error w of
                        Some err \<Rightarrow> (Ignored, [], app)
                      | None \<Rightarrow>
                          (let app1 = app\<lparr>MessagesDB := StoreMessage (MessagesDB app) ev msg\<rparr> in
                           if BotReplyLabel (Cfg app) \<noteq> [] \<and>
                              Contains (Body msg) (BotReplyLabel (Cfg app))
                           then (Ignored, [], app1)
                           else
                             (case pending_reply app1 msg of
                                Some (step, target) \<Rightarrow>
                                  (ConversationContinuation, [GoReply ev step target], app1)
                              | None \<Rightarrow>
                                  (if AllowedCommands currentRoom \<noteq> None \<and>
                                      (HasPrefix (Body msg) ''/bot'' \<or>
                                       HasPrefix (Body msg) ''@gork'')
                                   then
                                     (case dispatchBotCommand w app1 ev msg currentRoom of
                                        (acts, kk) \<Rightarrow>
                                          (Command, acts, app1\<lparr>KnockKnock := kk\<rparr>))
                                   else (PassThrough, [ProcessLinks], app1)))))))))"

section \<open>The yap leaderboard (package bot)\<close>

subsection \<open>The query\<close>

text \<open>
  Both functions send the same query to SQLite, \<open>QueryTopYappers\<close> with a \<open>LIMIT\<close>:

  \<^verbatim>\<open>SELECT sender, SUM(LENGTH(body) - LENGTH(REPLACE(body, ' ', '')) + 1) as word_count
  FROM messages
  WHERE room_id = ? AND ts_ms >= ? AND body NOT LIKE '[BOT]%' AND body NOT LIKE '/bot %'
    AND msgtype = 'm.text'
  GROUP BY sender ORDER BY word_count DESC LIMIT ?\<close>

  The definitions below give what the query means. \<open>LIKE\<close> with a pattern that ends in
  \<open>%\<close> and has no other wildcard is a prefix test that ignores the case of ASCII letters.
  \<open>LENGTH\<close> counts the characters of a text before its first NUL byte: every byte but the
  continuation bytes that follow a lead byte (\<open>0xC0\<close> and above). \<open>REPLACE\<close> with an
  empty replacement removes every space.
\<close>

definition ascii_lower :: "char \<Rightarrow> char" where
  "ascii_lower c = (if CHR ''A'' \<le> c \<and> c \<le> CHR ''Z'' then char_of (of_char c + 32 :: nat) else c)"

definition like_prefix :: "string \<Rightarrow> string \<Rightarrow> bool" where
  "like_prefix s p =
     (length p \<le> length s \<and> map ascii_lower (take (length p) s) = map ascii_lower p)"

definition is_continuation :: "char \<Rightarrow> bool" where
  "is_continuation c = (CHR 0x80 \<le> c \<and> c \<le> CHR 0xBF)"

function sql_length :: "string \<Rightarrow> nat" where
  "sql_length [] = 0"
| "sql_length (c # z) =
     (if c = CHR 0x00 then 0
      else if CHR 0xC0 \<le> c then Suc (sql_length (dropWhile is_continuation z))
      else Suc (sql_length z))"
  by pat_completeness auto
termination
proof (relation "measure length")
  fix c :: char and z :: string
  have "length (dropWhile is_continuation z) \<le> length z" by (rule length_dropWhile_le)
  then show "(dropWhile is_continuation z, c # z) \<in> measure length" by simp
qed simp_all

definition remove_spaces :: "string \<Rightarrow> string" where
  "remove_spaces s = filter (\<lambda>c. c \<noteq> CHR '' '') s"

definition word_count :: "string \<Rightarrow> int" where
  "word_count b = int (sql_length b) - int (sql_length (remove_spaces b)) + 1"

definition qualifies :: "string \<Rightarrow> int \<Rightarrow> row \<Rightarrow> bool" where
  "qualifies roomID cutoff r =
     (row_room_id r = roomID \<and> row_ts_ms r \<ge> cutoff \<and>
      \<not> like_prefix (row_body r) ''[BOT]'' \<and> \<not> like_prefix (row_body r) ''/bot '' \<and>
      row_msgtype r = ''m.text'')"


text \<open>
  \<open>GROUP BY sender\<close> with the sum for each group: \<open>yap_groups\<close>, one pair for each
  sender of a row that the \<open>WHERE\<close> clause keeps.
\<close>

definition sender_total :: "row list \<Rightarrow> string \<Rightarrow> int" where
  "sender_total q s = sum_list (map (\<lambda>r. word_count (row_body r)) (filter (\<lambda>r. row_sender r = s) q))"

definition yap_groups :: "row list \<Rightarrow> string \<Rightarrow> int \<Rightarrow> (string \<times> int) list" where
  "yap_groups db roomID cutoff =
     (let q = filter (qualifies roomID cutoff) db
      in map (\<lambda>s. (s, sender_total q s)) (remdups (map row_sender q)))"

subsection \<open>QueryTopYappers and queryYapGuess\<close>

text \<open>
  What the two functions get from outside: the database handle, which may be nil, the
  error of the query if it fails, the start of the day as \<open>startOfToday\<close> computes it
  from the clock, the Matrix client, which is nil in the tests (with a client, the
  display names of the joined members or the failure of \<open>JoinedMembers\<close>, and the
  error of \<open>SendMessageEvent\<close>, if any), and the sort of the database engine.
\<close>

record yap_client =
  joined_members :: "(string \<times> string) list option"
  send_error :: "string option"

record yap_world =
  yap_db :: "row list option"
  query_error :: "string option"
  start_of_today :: int
  matrix_client :: "yap_client option"
  order_by :: "(string \<times> int) list \<Rightarrow> (string \<times> int) list"

text \<open>
  \<open>ORDER BY word_count DESC\<close>. SQL fixes the order of the rows as far as the sums
  differ; which of two senders with equal sums comes first is left to the database
  engine, whose code is not part of the repository. The sort of the engine is the
  parameter \<open>order_by\<close> of the world. \<open>ordered_desc gs rows\<close> says that \<open>rows\<close> is
  \<open>gs\<close> rearranged with the sums descending, which is all that is assumed of the engine.
  \<open>LIMIT\<close> keeps the first rows of the sorted result.
\<close>

definition ordered_desc :: "(string \<times> int) list \<Rightarrow> (string \<times> int) list \<Rightarrow> bool" where
  "ordered_desc gs rows = (mset rows = mset gs \<and> sorted_wrt (\<lambda>a b. snd b \<le> snd a) rows)"

definition yap_ranking :: "yap_world \<Rightarrow> row list \<Rightarrow> string \<Rightarrow> int \<Rightarrow> (string \<times> int) list" where
  "yap_ranking yw db roomID cutoff = order_by yw (yap_groups db roomID cutoff)"

definition yap_query ::
  "yap_world \<Rightarrow> row list \<Rightarrow> string \<Rightarrow> int \<Rightarrow> int \<Rightarrow> (string \<times> int) list" where
  "yap_query yw db roomID cutoff limit = take (nat limit) (yap_ranking yw db roomID cutoff)"

text \<open>A message sent by one of the two functions: body, formatted body, event replied to.\<close>

record yap_message =
  msg_body :: string
  msg_formatted :: string
  msg_reply_to :: string

definition emdash :: string where
  "emdash = [CHR 0xE2, CHR 0x80, CHR 0x94]"

text \<open>\<open>strings.ToLower\<close> on ASCII letters; \<open>strings.Index s sub\<close> for one byte.\<close>

definition ToLower :: "string \<Rightarrow> string" where
  "ToLower s = map ascii_lower s"

fun index_from :: "string \<Rightarrow> char \<Rightarrow> int \<Rightarrow> int" where
  "index_from [] c i = - 1"
| "index_from (x # xs) c i = (if x = c then i else index_from xs c (i + 1))"

definition Index :: "string \<Rightarrow> char \<Rightarrow> int" where
  "Index s c = index_from s c 0"

definition TrimSuffix :: "string \<Rightarrow> string \<Rightarrow> string" where
  "TrimSuffix s suf = (if suffix suf s then take (length s - length suf) s else s)"

text \<open>The limit that \<open>QueryTopYappers\<close> reads from its argument.\<close>

definition yap_limit :: "string \<Rightarrow> int" where
  "yap_limit args =
     (let limit0 =
            (if args \<noteq> [] then
               (case Atoi (TrimSpace args) of
                  Some n \<Rightarrow> if n > 0 then n else 5
                | None \<Rightarrow> 5)
             else 5)
      in if limit0 > 50 then 50 else limit0)"

text \<open>The display name of a sender.\<close>

definition display_name :: "(string \<times> string) list \<Rightarrow> string \<Rightarrow> string" where
  "display_name displayNames sndr =
     (case map_of displayNames sndr of
        Some dn \<Rightarrow> dn
      | None \<Rightarrow>
          if HasPrefix sndr ''@'' \<and> Index sndr (CHR '':'') > 0
          then take (nat (Index sndr (CHR '':'')) - 1) (drop 1 sndr)
          else sndr)"

definition displayNames_of :: "yap_client option \<Rightarrow> (string \<times> string) list" where
  "displayNames_of cl =
     (case cl of
        None \<Rightarrow> []
      | Some c \<Rightarrow>
          (case joined_members c of
             None \<Rightarrow> []
           | Some ms \<Rightarrow> filter (\<lambda>m. snd m \<noteq> []) ms))"

text \<open>The lines of the plain and of the HTML text, numbered from \<open>i + 1\<close>.\<close>

fun plain_lines :: "nat \<Rightarrow> (string \<times> string \<times> int) list \<Rightarrow> string" where
  "plain_lines i [] = []"
| "plain_lines i ((sid, disp, cnt) # es) =
     (Itoa (int i + 1) @ ''. '' @ disp @ '' '' @ emdash @ '' '' @ Itoa cnt @ '' words'' @ [CHR 0x0A])
     @ plain_lines (Suc i) es"

fun html_lines :: "bool \<Rightarrow> nat \<Rightarrow> (string \<times> string \<times> int) list \<Rightarrow> string" where
  "html_lines mention i [] = []"
| "html_lines mention i ((sid, disp, cnt) # es) =
     (if mention then
        Itoa (int i + 1) @ ''. <a href='' @ [CHR 0x22] @ ''https://matrix.to/#/'' @ sid @
          [CHR 0x22] @ ''>'' @ disp @ ''</a> '' @ emdash @ '' '' @ Itoa cnt @ '' words<br>''
      else
        Itoa (int i + 1) @ ''. '' @ disp @ '' '' @ emdash @ '' '' @ Itoa cnt @ '' words<br>'')
     @ html_lines mention (Suc i) es"

text \<open>
  \<open>queryYapGuess\<close>. \<open>guess_scan\<close> is its loop over the rows: the rank reached, the
  position of the sender and the sender's count.
\<close>

fun guess_scan :: "(string \<times> int) list \<Rightarrow> string \<Rightarrow> int \<times> int \<times> int \<Rightarrow> int \<times> int \<times> int" where
  "guess_scan [] senderID st = st"
| "guess_scan ((sndr, cnt) # rows) senderID (rank, actualPos, totalWords) =
     (if sndr = senderID then guess_scan rows senderID (rank + 1, rank + 1, cnt)
      else guess_scan rows senderID (rank + 1, actualPos, totalWords))"

definition guess_message :: "string \<Rightarrow> int \<Rightarrow> int \<Rightarrow> int \<Rightarrow> string" where
  "guess_message replyLabel guess actualPos totalWords =
     (let diff = guess - actualPos in
      if diff = 0 then
        replyLabel @ ''you guessed #'' @ Itoa guess @ '' '' @ emdash @
          '' that's exactly right! ('' @ Itoa totalWords @ '' words)''
      else
        let direction = (if diff > 0 then ''lower'' else ''higher'');
            absDiff = (if diff > 0 then diff else - diff)
        in replyLabel @ ''you guessed #'' @ Itoa guess @ '' but you're actually #'' @
             Itoa actualPos @ '' ('' @ Itoa totalWords @ '' words) '' @ emdash @ '' '' @
             Itoa absDiff @ '' position(s) '' @ direction @ '' than you thought'')"

text \<open>The guess that \<open>queryYapGuess\<close> reads from its argument.\<close>

definition guess_number :: "string \<Rightarrow> int" where
  "guess_number guessArg =
     (if guessArg \<noteq> [] then
        (case Atoi (TrimSpace guessArg) of
           Some n \<Rightarrow> if n > 0 then n else 1
         | None \<Rightarrow> 1)
      else 1)"

definition queryYapGuess ::
  "yap_world \<Rightarrow> row list \<Rightarrow> Event \<Rightarrow> string \<Rightarrow> string \<Rightarrow> yap_message list \<times> (string + string)"
where
  "queryYapGuess yw db ev guessArg replyLabel =
     (let guess = guess_number guessArg
      in
      case query_error yw of
        Some err \<Rightarrow> ([], Inl (''query yap guess: '' @ err))
      | None \<Rightarrow>
          (case guess_scan (yap_ranking yw db (RoomID ev) (start_of_today yw)) (Sender ev) (0, 0, 0) of
             (rank, actualPos, totalWords) \<Rightarrow>
               (if actualPos = 0 then ([], Inr ''you have no messages today!'')
                else
                  let msg = guess_message replyLabel guess actualPos totalWords in
                  (case matrix_client yw of
                     Some cl \<Rightarrow>
                       (case send_error cl of
                          Some err \<Rightarrow>
                            ([\<lparr>msg_body = msg, msg_formatted = [], msg_reply_to = ID ev\<rparr>],
                             Inl (''send yap guess reply: '' @ err))
                        | None \<Rightarrow>
                            ([\<lparr>msg_body = msg, msg_formatted = [], msg_reply_to = ID ev\<rparr>],
                             Inr []))
                   | None \<Rightarrow> ([], Inr msg)))))"

text \<open>\<open>yap_entries\<close> is the slice \<open>entries\<close> of \<open>QueryTopYappers\<close>.\<close>

definition yap_entries :: "yap_world \<Rightarrow> row list \<Rightarrow> Event \<Rightarrow> string \<Rightarrow> (string \<times> string \<times> int) list" where
  "yap_entries yw db ev args =
     map (\<lambda>(sndr, cnt). (sndr, display_name (displayNames_of (matrix_client yw)) sndr, cnt))
       (yap_query yw db (RoomID ev) (start_of_today yw) (yap_limit args))"

definition QueryTopYappers ::
  "yap_world \<Rightarrow> Event \<Rightarrow> string \<Rightarrow> string \<Rightarrow> bool \<Rightarrow> yap_message list \<times> (string + string)"
where
  "QueryTopYappers yw ev args replyLabel mention =
     (case yap_db yw of
        None \<Rightarrow> ([], Inl ''no database available'')
      | Some db \<Rightarrow>
          (let trimmed = TrimSpace args in
           if HasPrefix (ToLower trimmed) ''guess''
           then queryYapGuess yw db ev (TrimSpace (drop (length ''guess'') trimmed)) replyLabel
           else
             (case query_error yw of
                Some err \<Rightarrow> ([], Inl (''query yappers: '' @ err))
              | None \<Rightarrow>
                  (let entries = yap_entries yw db ev args in
                   if length entries = 0 then ([], Inr ''no messages found today'')
                   else
                     let plain = replyLabel @ ''top yappers (today):'' @ [CHR 0x0A] @
                                   plain_lines 0 entries;
                         html = replyLabel @ ''top yappers (today):<br>'' @
                                   html_lines mention 0 entries
                     in
                     (case matrix_client yw of
                        Some cl \<Rightarrow>
                          (case send_error cl of
                             Some err \<Rightarrow>
                               ([\<lparr>msg_body = TrimSpace plain,
                                  msg_formatted = TrimSuffix html ''<br>'',
                                  msg_reply_to = ID ev\<rparr>],
                                Inl (''send yap reply: '' @ err))
                           | None \<Rightarrow>
                               ([\<lparr>msg_body = TrimSpace plain,
                                  msg_formatted = TrimSuffix html ''<br>'',
                                  msg_reply_to = ID ev\<rparr>],
                                Inr []))
                      | None \<Rightarrow> ([], Inr (TrimSpace plain)))))))"

section \<open>Concrete inputs\<close>

text \<open>
  Inputs at which the theorems below are instantiated. The handlers \<open>loud_handlers\<close>
  leave a trace and fail whenever they are called, so a result without that trace shows
  that no handler ran.
\<close>

definition loud_handlers :: "string handlers" where
  "loud_handlers =
     \<lparr>handleHttpCommand = (\<lambda>c url ev. ([''http''], Inl ''http failed'')),
      handleExecCommand = (\<lambda>ev c. ([''exec''], Inl ''exec failed'')),
      handleAiCommand = (\<lambda>ev c key label. ([''ai''], Inl ''ai failed'')),
      handleBuiltinCommand = (\<lambda>ev c label. ([''builtin''], Inl ''builtin failed''))\<rparr>"

definition zero_command :: BotCommand where
  "zero_command =
     \<lparr>Type = [], Method = [], URL = [], Headers = [], JSONPath = [], ResponseType = [],
      Command = [], Args = [], InputType = [], OutputType = [], Model = [], MaxTokens = 0,
      Prompt = [], Response = [], Mention = False\<rparr>"

definition ex_event :: "string \<Rightarrow> string \<Rightarrow> string option \<Rightarrow> Event" where
  "ex_event evID msgBody target =
     \<lparr>RoomID = ''!room:example.com'', ID = evID, Sender = ''@bob:example.com'',
      Timestamp = 1000,
      Content = Message \<lparr>MsgType = ''m.text'', Body = msgBody, InReplyTo = target\<rparr>\<rparr>"

definition ex_room :: "string list option \<Rightarrow> RoomIDEntry" where
  "ex_room allowed = zero_room\<lparr>EntryID := ''!room:example.com'', AllowedCommands := allowed\<rparr>"

definition ex_config :: "string \<Rightarrow> string list option \<Rightarrow> Config" where
  "ex_config label allowed =
     \<lparr>RoomIDs = [ex_room allowed], BotReplyLabel = label, LinkstashURL = [],
      GroqAPIKey = [], DryRun = False, OptOutTag = []\<rparr>"

definition ex_botcfg :: BotConfig where
  "ex_botcfg =
     \<lparr>Label = ''[BOT] '',
      Commands =
        [(''hi'', zero_command\<lparr>Response := ''hello''\<rparr>),
         (''joke'', zero_command\<lparr>Type := ''http'', URL := ''https://example.com/joke''\<rparr>),
         (''bogus'', zero_command\<lparr>Type := ''bogus''\<rparr>),
         (''knock'', zero_command\<lparr>Type := ''builtin'', Command := ''knockknock''\<rparr>)]\<rparr>"

definition ex_app :: "string \<Rightarrow> string list option \<Rightarrow> App" where
  "ex_app label allowed =
     \<lparr>Cfg = ex_config label allowed, MessagesDB = [], BotCfg = Some ex_botcfg,
      KnockKnock = NewKnockKnockState\<rparr>"

definition ex_world :: "string + string \<Rightarrow> string world" where
  "ex_world sent =
     \<lparr>handlers = loud_handlers, store_error = None, ready = True, send_result = sent,
      rnd = 1\<rparr>"

text \<open>
  A file system with one file and a decoder that reads it as \<open>ex_botcfg\<close>, which is
  what \<open>encoding/json\<close> makes of a document with these four commands.
\<close>

definition ex_fs :: "string \<Rightarrow> string + string" where
  "ex_fs path = (if path = ''./bot.json'' then Inr ''(the document)'' else Inl ''no such file'')"

definition ex_decode :: "string \<Rightarrow> string + BotConfig" where
  "ex_decode f = Inr ex_botcfg"

text \<open>
  The database of the test \<open>TestQueryYapGuess\<close>: five messages of alice, three of
  bob, one of carol, two words in each but the last; and an event of each sender.
\<close>

definition test_row :: "string \<Rightarrow> string \<Rightarrow> string \<Rightarrow> row" where
  "test_row rid sndr b =
     \<lparr>row_id = rid, row_room_id = ''!testroom:example.com'', row_sender = sndr,
      row_ts_ms = 2000, row_body = b, row_msgtype = ''m.text''\<rparr>"

definition test_db :: "row list" where
  "test_db =
     [test_row ''alice-0'' ''@alice:example.com'' ''hello 0'',
      test_row ''alice-1'' ''@alice:example.com'' ''hello 1'',
      test_row ''alice-2'' ''@alice:example.com'' ''hello 2'',
      test_row ''alice-3'' ''@alice:example.com'' ''hello 3'',
      test_row ''alice-4'' ''@alice:example.com'' ''hello 4'',
      test_row ''bob-0'' ''@bob:example.com'' ''hey 0'',
      test_row ''bob-1'' ''@bob:example.com'' ''hey 1'',
      test_row ''bob-2'' ''@bob:example.com'' ''hey 2'',
      test_row ''carol-0'' ''@carol:example.com'' ''sup'']"

text \<open>
  Two sorts that a database engine may use for \<open>ORDER BY word_count DESC\<close>:
  \<open>stable_desc\<close> leaves senders with equal sums in the order of the groups, and
  \<open>name_desc\<close> lists them by name, the greater name first.
\<close>

definition stable_desc :: "(string \<times> int) list \<Rightarrow> (string \<times> int) list" where
  "stable_desc gs = sort_key (\<lambda>g. - snd g) gs"

definition name_desc :: "(string \<times> int) list \<Rightarrow> (string \<times> int) list" where
  "name_desc gs = rev (sort_key snd (sort_key fst gs))"

definition test_world ::
  "row list \<Rightarrow> yap_client option \<Rightarrow> ((string \<times> int) list \<Rightarrow> (string \<times> int) list) \<Rightarrow> yap_world"
where
  "test_world db cl engine =
     \<lparr>yap_db = Some db, query_error = None, start_of_today = 1000, matrix_client = cl,
      order_by = engine\<rparr>"

text \<open>
  A client that knows the display name of alice and sends without error, and a database
  with rows that the query leaves out: a reply of the bot, a command, a message of
  another room, a message from before the start of the day and an image. The senders
  bob and zed have the same sum.
\<close>

definition ex_client :: yap_client where
  "ex_client =
     \<lparr>joined_members = Some [(''@alice:example.com'', ''Alice A''), (''@bob:example.com'', [])],
      send_error = None\<rparr>"

definition busy_db :: "row list" where
  "busy_db =
     [test_row ''m1'' ''@alice:example.com'' ''hello world'',
      test_row ''m2'' ''@bob:example.com'' ''hey there you'',
      test_row ''m3'' ''@ash:example.com'' ''[BOT] top yappers (today):'',
      test_row ''m4'' ''@alice:example.com'' ''/bot yap'',
      (test_row ''m5'' ''@carol:example.com'' ''in another room'')\<lparr>row_room_id := ''!other:example.com''\<rparr>,
      (test_row ''m6'' ''@dave:example.com'' ''from the day before'')\<lparr>row_ts_ms := 999\<rparr>,
      (test_row ''m7'' ''@erin:example.com'' ''photo of a cat'')\<lparr>row_msgtype := ''m.image''\<rparr>,
      test_row ''m8'' ''@zed:example.com'' ''x y z'',
      test_row ''m9'' ''@alice:example.com'' ''a b c'']"

definition test_event :: "string \<Rightarrow> Event" where
  "test_event sndr =
     \<lparr>RoomID = ''!testroom:example.com'', ID = ''$ev'', Sender = sndr, Timestamp = 3000,
      Content = NotAMessage\<rparr>"






section \<open>Properties of the text utilities\<close>

lemma InSlice_iff: "InSlice slice item \<longleftrightarrow> item \<in> set slice"
  by (induction slice) auto

lemma wrap64_id: "- (2 ^ 63) \<le> x \<Longrightarrow> x < 2 ^ 63 \<Longrightarrow> wrap64 x = x"
  by (simp add: wrap64_def)

lemma sdiv_nonneg: "0 \<le> (a::int) \<Longrightarrow> 0 < b \<Longrightarrow> a sdiv b = a div b"
  by (simp add: signed_divide_int_def sgn_if)

lemma last_from_cases:
  "(last_from s sub n = - 1 \<and> (\<forall>j\<le>n. \<not> prefix sub (drop j s))) \<or>
   (\<exists>i\<le>n. last_from s sub n = int i \<and> prefix sub (drop i s) \<and>
      (\<forall>j. i < j \<and> j \<le> n \<longrightarrow> \<not> prefix sub (drop j s)))"
proof (induction n)
  case 0
  then show ?case by auto
next
  case (Suc n)
  show ?case
  proof (cases "prefix sub (drop (Suc n) s)")
    case True
    then show ?thesis by auto
  next
    case False
    from Suc.IH show ?thesis
    proof
      assume "last_from s sub n = - 1 \<and> (\<forall>j\<le>n. \<not> prefix sub (drop j s))"
      with False show ?thesis by (auto simp: le_Suc_eq)
    next
      assume "\<exists>i\<le>n. last_from s sub n = int i \<and> prefix sub (drop i s) \<and>
        (\<forall>j. i < j \<and> j \<le> n \<longrightarrow> \<not> prefix sub (drop j s))"
      then obtain i where i: "i \<le> n" "last_from s sub n = int i" "prefix sub (drop i s)"
        "\<forall>j. i < j \<and> j \<le> n \<longrightarrow> \<not> prefix sub (drop j s)" by blast
      have "\<forall>j. i < j \<and> j \<le> Suc n \<longrightarrow> \<not> prefix sub (drop j s)"
        using i(4) False by (auto simp: le_Suc_eq)
      with i False show ?thesis by auto
    qed
  qed
qed

lemma LastIndex_le: "LastIndex s sub \<le> int (length s)"
  using last_from_cases [of s sub "length s"] by (auto simp: LastIndex_def)

lemma LastIndex_ge: "- 1 \<le> LastIndex s sub"
  using last_from_cases [of s sub "length s"] by (auto simp: LastIndex_def)

lemma prefix_single_drop: "prefix [c] (drop i s) \<longleftrightarrow> i < length s \<and> s ! i = c"
proof (cases "i < length s")
  case True
  then have "drop i s = s ! i # drop (Suc i) s" by (simp add: Cons_nth_drop_Suc)
  with True show ?thesis by auto
next
  case False
  then show ?thesis by simp
qed

lemma LastIndex_char:
  assumes "LastIndex s [c] = int i"
  shows "i < length s \<and> s ! i = c \<and> (\<forall>j. i < j \<and> j < length s \<longrightarrow> s ! j \<noteq> c)"
  using last_from_cases [of s "[c]" "length s"] assms
  by (auto simp: LastIndex_def prefix_single_drop)

lemma LastIndex_char_none:
  assumes "LastIndex s [c] = - 1"
  shows "c \<notin> set s"
proof
  assume "c \<in> set s"
  then obtain j where "j < length s" "s ! j = c" by (auto simp: in_set_conv_nth)
  then have "prefix [c] (drop j s)" by (simp add: prefix_single_drop)
  with last_from_cases [of s "[c]" "length s"] assms \<open>j < length s\<close>
  show False by (auto simp: LastIndex_def)
qed

lemma LastIndex_char_ge:
  assumes "j < length s" "s ! j = c"
  shows "int j \<le> LastIndex s [c]"
proof -
  have pj: "prefix [c] (drop j s)" using assms by (simp add: prefix_single_drop)
  from last_from_cases [of s "[c]" "length s"] show ?thesis
  proof
    assume "last_from s [c] (length s) = - 1 \<and> (\<forall>j\<le>length s. \<not> prefix [c] (drop j s))"
    with pj assms show ?thesis by auto
  next
    assume "\<exists>i\<le>length s. last_from s [c] (length s) = int i \<and> prefix [c] (drop i s) \<and>
      (\<forall>j. i < j \<and> j \<le> length s \<longrightarrow> \<not> prefix [c] (drop j s))"
    then obtain i where i: "last_from s [c] (length s) = int i"
      "\<forall>j. i < j \<and> j \<le> length s \<longrightarrow> \<not> prefix [c] (drop j s)" by blast
    have "\<not> i < j" using i(2) pj assms by auto
    with i(1) show ?thesis by (simp add: LastIndex_def)
  qed
qed

lemma TruncateText_short:
  "int (length t) sdiv 4 \<le> L \<Longrightarrow> TruncateText t L = Inr t"
  by (simp add: TruncateText_def)

lemma TruncateText_long:
  assumes "0 \<le> L" "int (length t) < 2 ^ 63" "L < int (length t) sdiv 4"
  shows "TruncateText t L = Inr (cut_at (take (nat (4 * L)) t) (4 * L))"
proof -
  have d: "int (length t) sdiv 4 = int (length t) div 4" by (simp add: sdiv_nonneg)
  have lt: "4 * L < int (length t)" using assms(3) d by linarith
  have w: "wrap64 (L * 4) = 4 * L"
    using assms(1,2) lt by (simp add: wrap64_id mult.commute)
  have h: "(4 * L) sdiv 2 = (4 * L) div 2" using assms(1) by (simp add: sdiv_nonneg)
  define text1 where "text1 = take (nat (4 * L)) t"
  have s1: "slice_to t (4 * L) = Inr text1"
    using assms(1) lt by (simp add: slice_to_def text1_def)
  have nn: "0 \<le> (4 * L) div 2" using assms(1) by simp
  have sl: "\<And>sub. LastIndex text1 sub > (4 * L) div 2 \<Longrightarrow>
     slice_to text1 (LastIndex text1 sub) = Inr (take (nat (LastIndex text1 sub)) text1)"
    using nn LastIndex_le by (simp add: slice_to_def)
  show ?thesis
    using assms(3) lt sl
    by (simp add: TruncateText_def w h s1 cut_at_def Let_def text1_def [symmetric])
qed

lemma cut_at_prefix: "prefix (cut_at s m) s"
  by (simp add: cut_at_def Let_def take_is_prefix)

lemma cut_at_length: "length (cut_at s m) \<le> length s"
  by (simp add: cut_at_def Let_def)


lemma cut_at_newline:
  assumes "i < length s" "s ! i = CHR 0x0A" "m div 2 < int i"
  shows "\<exists>k. cut_at s m = take k s \<and> i \<le> k \<and> k < length s \<and> s ! k = CHR 0x0A \<and>
             (\<forall>j. k < j \<and> j < length s \<longrightarrow> s ! j \<noteq> CHR 0x0A)"
proof -
  have ge: "int i \<le> LastIndex s [CHR 0x0A]" using assms(1,2) by (rule LastIndex_char_ge)
  define k where "k = nat (LastIndex s [CHR 0x0A])"
  have k: "LastIndex s [CHR 0x0A] = int k" using ge by (simp add: k_def)
  from LastIndex_char [OF k]
  have p: "k < length s" "s ! k = CHR 0x0A" "\<forall>j. k < j \<and> j < length s \<longrightarrow> s ! j \<noteq> CHR 0x0A"
    by auto
  have "cut_at s m = take k s" using ge assms(3) k by (simp add: cut_at_def Let_def)
  moreover have "i \<le> k" using ge k by simp
  ultimately show ?thesis using p by blast
qed

text \<open>
  Claim C7. For a token budget \<open>tokenLimit \<ge> 0\<close> (and a text of a length a Go string
  can have) \<open>TruncateText\<close> returns a result \<open>r\<close> without panicking; a text that is
  already short (\<open>len(text)/4 \<le> tokenLimit\<close>) is returned unchanged; truncating the
  result again returns it unchanged; \<open>r\<close> is a prefix of the text of at most
  \<open>4 * tokenLimit + 3\<close> bytes, and of at most \<open>4 * tokenLimit\<close> bytes for a text of 10000
  bytes and a budget below 2500; and when the text is cut and its first \<open>4 * tokenLimit\<close>
  bytes hold a newline at an index above the midpoint \<open>(4 * tokenLimit)/2\<close>, the cut is
  at the last such newline: \<open>r\<close> is the text before it.
\<close>

theorem TruncateText_spec:
  assumes "0 \<le> tokenLimit" "int (length text) < 2 ^ 63"
  shows "\<exists>r. TruncateText text tokenLimit = Inr r
     \<and> (int (length text) sdiv 4 \<le> tokenLimit \<longrightarrow> r = text)
     \<and> TruncateText r tokenLimit = Inr r
     \<and> prefix r text
     \<and> int (length r) \<le> 4 * tokenLimit + 3
     \<and> (length text = 10000 \<and> tokenLimit < 2500 \<longrightarrow> int (length r) \<le> 4 * tokenLimit)
     \<and> (\<forall>i. tokenLimit < int (length text) sdiv 4 \<and> 4 * tokenLimit sdiv 2 < int i
            \<and> int i < 4 * tokenLimit \<and> text ! i = CHR 0x0A \<longrightarrow>
          (\<exists>k. r = take k text \<and> i \<le> k \<and> int k < 4 * tokenLimit \<and> text ! k = CHR 0x0A \<and>
             (\<forall>j. k < j \<and> int j < 4 * tokenLimit \<longrightarrow> text ! j \<noteq> CHR 0x0A)))"
proof (cases "int (length text) sdiv 4 \<le> tokenLimit")
  case True
  have d: "int (length text) sdiv 4 = int (length text) div 4" by (simp add: sdiv_nonneg)
  have "int (length text) \<le> 4 * tokenLimit + 3" using True d by linarith
  moreover have "\<not> (length text = 10000 \<and> tokenLimit < 2500)" using True d by auto
  ultimately show ?thesis using True by (auto simp: TruncateText_short)
next
  case False
  then have long: "tokenLimit < int (length text) sdiv 4" by simp
  have d: "int (length text) sdiv 4 = int (length text) div 4" by (simp add: sdiv_nonneg)
  have h: "(4 * tokenLimit) sdiv 2 = (4 * tokenLimit) div 2"
    using assms(1) by (simp add: sdiv_nonneg)
  have lt: "4 * tokenLimit < int (length text)" using long d by linarith
  define m where "m = nat (4 * tokenLimit)"
  define text1 where "text1 = take m text"
  define r where "r = cut_at text1 (4 * tokenLimit)"
  have len1: "length text1 = m" using lt by (simp add: text1_def m_def)
  have im: "int m = 4 * tokenLimit" using assms(1) by (simp add: m_def)
  have res: "TruncateText text tokenLimit = Inr r"
    using TruncateText_long [OF assms long] by (simp add: r_def text1_def m_def)
  have lenr: "length r \<le> m" using cut_at_length [of text1 "4 * tokenLimit"] len1 by (simp add: r_def)
  have pre: "prefix r text"
    using cut_at_prefix [of text1 "4 * tokenLimit"] take_is_prefix [of m "text"]
    unfolding r_def text1_def by (rule prefix_order.trans)
  have "int (length r) sdiv 4 = int (length r) div 4" by (simp add: sdiv_nonneg)
  then have "int (length r) sdiv 4 \<le> tokenLimit" using lenr im by linarith
  then have idem: "TruncateText r tokenLimit = Inr r" by (rule TruncateText_short)
  have nl: "\<exists>k. r = take k text \<and> i \<le> k \<and> int k < 4 * tokenLimit \<and> text ! k = CHR 0x0A \<and>
             (\<forall>j. k < j \<and> int j < 4 * tokenLimit \<longrightarrow> text ! j \<noteq> CHR 0x0A)"
    if i: "4 * tokenLimit sdiv 2 < int i" "int i < 4 * tokenLimit" "text ! i = CHR 0x0A" for i
  proof -
    have i1: "i < length text1" using i(2) im len1 by simp
    have i2: "text1 ! i = CHR 0x0A" using i(3) i1 by (simp add: text1_def)
    have i3: "(4 * tokenLimit) div 2 < int i" using i(1) h by simp
    from cut_at_newline [OF i1 i2 i3] obtain k where k:
      "cut_at text1 (4 * tokenLimit) = take k text1" "i \<le> k" "k < length text1"
      "text1 ! k = CHR 0x0A" "\<forall>j. k < j \<and> j < length text1 \<longrightarrow> text1 ! j \<noteq> CHR 0x0A"
      by blast
    have a: "r = take k text" using k(1,3) len1 by (simp add: r_def text1_def min_def)
    have b: "text ! k = CHR 0x0A" using k(3,4) by (simp add: text1_def)
    have c: "\<forall>j. k < j \<and> int j < 4 * tokenLimit \<longrightarrow> text ! j \<noteq> CHR 0x0A"
    proof (intro allI impI)
      fix j assume j: "k < j \<and> int j < 4 * tokenLimit"
      then have "j < length text1" using im len1 by simp
      with k(5) j have "text1 ! j \<noteq> CHR 0x0A" by blast
      with \<open>j < length text1\<close> show "text ! j \<noteq> CHR 0x0A" by (simp add: text1_def)
    qed
    have "int k < 4 * tokenLimit" using k(3) len1 im by simp
    with a b c k(2) show ?thesis by blast
  qed
  have "int (length r) \<le> 4 * tokenLimit" using lenr im by simp
  with res False idem pre nl show ?thesis by auto
qed

theorem TruncateText_spec_witness:
  "(0::int) \<le> 2 \<and> int (length ''abcde\<newline>fg hijklm'') < 2 ^ 63 \<and>
   TruncateText ''abcde\<newline>fg hijklm'' 2 = Inr ''abcde'' \<and>
   TruncateText ''abcde'' 2 = Inr ''abcde''"
  using TruncateText_spec [of 2 "''abcde\<newline>fg hijklm''"]
  by (simp add: TruncateText_def wrap64_def slice_to_def LastIndex_def signed_divide_int_def)

section \<open>JSON path extraction\<close>

lemma Split_no_sep: "sep \<notin> set s \<Longrightarrow> Split s sep = [s]"
  by (induction s) auto

lemma isDigit_iff: "isDigit c \<longleftrightarrow> 48 \<le> (of_char c :: nat) \<and> (of_char c :: nat) \<le> 57"
  by (simp add: isDigit_def less_eq_char_def)

lemma digit_char_cases:
  assumes "n < 10"
  shows "isDigit (digit_char n) \<and> digit_val (digit_char n) = n"
proof -
  from assms have "n \<in> {0, 1, 2, 3, 4, 5, 6, 7, 8, 9}" by auto
  then show ?thesis by (auto simp: digit_val_def digit_char_def isDigit_iff)
qed

lemma digit_props:
  assumes "isDigit c"
  shows "\<not> ascii_space c" "c \<noteq> CHR ''.''" "c \<noteq> CHR ''+''" "c \<noteq> CHR ''-''"
    "c \<noteq> CHR 0x0A" "space_width (c # r) = 0"
proof -
  have n: "48 \<le> (of_char c :: nat)" "(of_char c :: nat) \<le> 57"
    using assms by (simp_all add: isDigit_iff)
  show a: "\<not> ascii_space c" using n by (auto simp: ascii_space_def)
  show "c \<noteq> CHR ''.''" "c \<noteq> CHR ''+''" "c \<noteq> CHR ''-''" "c \<noteq> CHR 0x0A"
    using n by auto
  have "c \<noteq> CHR 0xC2" "c \<noteq> CHR 0xE1" "c \<noteq> CHR 0xE2" "c \<noteq> CHR 0xE3"
    using n by auto
  with a show "space_width (c # r) = 0" by simp
qed

lemma nat_dec_digits: "list_all isDigit (nat_dec n)"
proof (induction n rule: nat_dec.induct)
  case (1 n)
  show ?case
  proof (cases "n < 10")
    case True
    then show ?thesis using digit_char_cases [of n] by (subst nat_dec.simps) simp
  next
    case False
    have "n mod 10 < 10" by simp
    with False 1 digit_char_cases [of "n mod 10"] show ?thesis
      by (subst nat_dec.simps) simp
  qed
qed

lemma nat_dec_nonempty: "nat_dec n \<noteq> []"
  by (subst nat_dec.simps) simp

lemma dec_val_snoc: "dec_val (ds @ [c]) = 10 * dec_val ds + digit_val c"
  by (simp add: dec_val_def)

lemma dec_val_nat_dec: "dec_val (nat_dec n) = n"
proof (induction n rule: nat_dec.induct)
  case (1 n)
  show ?case
  proof (cases "n < 10")
    case True
    then show ?thesis using digit_char_cases [of n]
      by (subst nat_dec.simps) (simp add: dec_val_def)
  next
    case False
    have "n mod 10 < 10" by simp
    with False 1 digit_char_cases [of "n mod 10"] show ?thesis
      by (subst nat_dec.simps) (simp add: dec_val_snoc)
  qed
qed


lemma Sscanf_d_nat_dec:
  assumes "int n < 2 ^ 63"
  shows "Sscanf_d (nat_dec n) = Some (int n)"
proof -
  obtain c r where cr: "nat_dec n = c # r"
    using nat_dec_nonempty [of n] by (cases "nat_dec n") auto
  have all: "list_all isDigit (c # r)" using nat_dec_digits [of n] cr by simp
  then have c: "isDigit c" by simp
  have sk: "SkipSpace (c # r) = Some (c # r)"
    using digit_props(5,6) [OF c] by (subst SkipSpace.simps) simp
  have tw: "takeWhile isDigit (c # r) = c # r"
    using all by (simp add: list_all_iff del: takeWhile.simps)
  have sv: "signed_val False (c # r) = Some (int n)"
    using assms dec_val_nat_dec [of n] cr by (simp add: signed_val_def in_int64_def)
  have "Sscanf_d (c # r) = signed_val False (takeWhile isDigit (c # r))"
    using sk digit_props(3,4) [OF c] by (simp add: Sscanf_d_def del: takeWhile.simps)
  then show ?thesis using tw sv cr by simp
qed

lemma nat_dec_no_dot: "CHR ''.'' \<notin> set (nat_dec n)"
  using nat_dec_digits [of n] digit_props(2) by (auto simp: list_all_iff)


lemma ExtractJSONPath_step_total: "\<exists>r. ExtractJSONPath_step cur p = Inr r"
  by (auto simp: ExtractJSONPath_step_def index_at_def split: json.splits option.splits)

lemma ExtractJSONPath_loop_total: "\<exists>v. ExtractJSONPath_loop cur ps = Inr v"
proof (induction ps arbitrary: cur)
  case Nil
  show ?case by simp
next
  case (Cons p ps)
  obtain r where r: "ExtractJSONPath_step cur p = Inr r"
    using ExtractJSONPath_step_total by blast
  show ?case
  proof (cases r)
    case None
    with r show ?thesis by simp
  next
    case (Some c)
    with r Cons.IH [of c] show ?thesis by simp
  qed
qed

lemma ExtractJSONPath_loop_JNil: "ExtractJSONPath_loop JNil ps = Inr JNil"
  by (cases ps) (simp_all add: ExtractJSONPath_step_def)

lemma ExtractJSONPath_loop_scalar:
  assumes "\<forall>m. cur \<noteq> JObj m" "\<forall>a. cur \<noteq> JArr a"
  shows "ExtractJSONPath_loop cur (p # ps) = Inr JNil"
  using assms by (cases cur) (simp_all add: ExtractJSONPath_step_def)

lemma ExtractJSONPath_loop_missing:
  assumes "map_of m p = None"
  shows "ExtractJSONPath_loop (JObj m) (p # ps) = Inr JNil"
  using assms by (simp add: ExtractJSONPath_step_def ExtractJSONPath_loop_JNil)

lemma ExtractJSONPath_loop_key:
  assumes "map_of m p = Some v"
  shows "ExtractJSONPath_loop (JObj m) (p # ps) = ExtractJSONPath_loop v ps"
  using assms by (simp add: ExtractJSONPath_step_def)

lemma ExtractJSONPath_loop_index:
  assumes "Sscanf_d p = Some idx" "0 \<le> idx" "idx < int (length arr)"
  shows "ExtractJSONPath_loop (JArr arr) (p # ps) = ExtractJSONPath_loop (arr ! nat idx) ps"
  using assms by (simp add: ExtractJSONPath_step_def index_at_def)

lemma ExtractJSONPath_loop_range:
  assumes "\<forall>idx. Sscanf_d p = Some idx \<longrightarrow> idx < 0 \<or> int (length arr) \<le> idx"
  shows "ExtractJSONPath_loop (JArr arr) (p # ps) = Inr JNil"
  using assms by (auto simp: ExtractJSONPath_step_def split: option.splits)

lemma Sscanf_d_missing: "Sscanf_d ''missing'' = None"
  by (simp add: Sscanf_d_def SkipSpace.simps ascii_space_def signed_val_def isDigit_iff)

text \<open>
  Claim C6. \<open>ExtractJSONPath\<close> on a parsed JSON value and a dot-separated path:
  the path \<open>a.b\<close> reads \<open>"v"\<close> out of \<open>{"a":{"b":"v"}}\<close>; the empty path gives the root;
  the path \<open>missing\<close> gives the absent value \<open>JNil\<close> on every root that is not an object
  with that key; a decimal segment applied to an array reads the element at that index
  when it is in range; the function never panics (the result is always \<open>Inr\<close>); and
  at every segment of the walk a value that is neither object nor array, a missing key,
  and a segment that is no index in range all end the walk with the absent value, while a
  key that is present and an index in range go on with the value found.
\<close>

theorem ExtractJSONPath_spec:
  "ExtractJSONPath (JObj [(''a'', JObj [(''b'', JStr ''v'')])]) ''a.b'' = Inr (JStr ''v'')
   \<and> ExtractJSONPath (root :: 'f json) [] = Inr root
   \<and> ((\<forall>m. root = JObj m \<longrightarrow> map_of m ''missing'' = None) \<longrightarrow>
        ExtractJSONPath root ''missing'' = Inr JNil)
   \<and> (i < length arr \<and> int i < 2 ^ 63 \<longrightarrow>
        ExtractJSONPath (JArr (arr :: 'f json list)) (nat_dec i) = Inr (arr ! i))
   \<and> (\<exists>v. ExtractJSONPath root path = Inr v)
   \<and> (path \<noteq> [] \<longrightarrow>
        ExtractJSONPath root path = ExtractJSONPath_loop root (Split path (CHR ''.'')))
   \<and> ((\<forall>m. (cur :: 'f json) \<noteq> JObj m) \<and> (\<forall>a. cur \<noteq> JArr a) \<longrightarrow>
        ExtractJSONPath_loop cur (p # ps) = Inr JNil)
   \<and> (map_of (m :: (string \<times> 'f json) list) p = None \<longrightarrow>
        ExtractJSONPath_loop (JObj m) (p # ps) = Inr JNil)
   \<and> (map_of m p = Some v \<longrightarrow>
        ExtractJSONPath_loop (JObj m) (p # ps) = ExtractJSONPath_loop v ps)
   \<and> (Sscanf_d p = Some idx \<and> 0 \<le> idx \<and> idx < int (length arr) \<longrightarrow>
        ExtractJSONPath_loop (JArr arr) (p # ps) = ExtractJSONPath_loop (arr ! nat idx) ps)
   \<and> ((\<forall>idx. Sscanf_d p = Some idx \<longrightarrow> idx < 0 \<or> int (length arr) \<le> idx) \<longrightarrow>
        ExtractJSONPath_loop (JArr arr) (p # ps) = Inr JNil)"
proof -
  have a: "ExtractJSONPath (JObj [(''a'', JObj [(''b'', JStr ''v'')])]) ''a.b'' = Inr (JStr ''v'')"
    by (simp add: ExtractJSONPath_def ExtractJSONPath_step_def)
  have b: "ExtractJSONPath root [] = Inr root" by (simp add: ExtractJSONPath_def)
  have c: "ExtractJSONPath root ''missing'' = Inr JNil"
    if "\<forall>m. root = JObj m \<longrightarrow> map_of m ''missing'' = None"
  proof -
    have sp: "Split ''missing'' (CHR ''.'') = [''missing'']" by simp
    have "ExtractJSONPath_step root ''missing'' = Inr None \<or>
          ExtractJSONPath_step root ''missing'' = Inr (Some JNil)"
      using that Sscanf_d_missing
      by (cases root) (simp_all add: ExtractJSONPath_step_def del: map_of.simps)
    then show ?thesis by (auto simp: ExtractJSONPath_def sp)
  qed
  have d: "ExtractJSONPath (JArr arr) (nat_dec i) = Inr (arr ! i)"
    if "i < length arr" "int i < 2 ^ 63"
  proof -
    have sp: "Split (nat_dec i) (CHR ''.'') = [nat_dec i]"
      using nat_dec_no_dot by (rule Split_no_sep)
    show ?thesis
      using that nat_dec_nonempty [of i] Sscanf_d_nat_dec [of i]
      by (simp add: ExtractJSONPath_def sp ExtractJSONPath_step_def index_at_def)
  qed
  have e: "\<exists>v. ExtractJSONPath root path = Inr v"
    by (simp add: ExtractJSONPath_def ExtractJSONPath_loop_total)
  have f: "path \<noteq> [] \<longrightarrow>
        ExtractJSONPath root path = ExtractJSONPath_loop root (Split path (CHR ''.''))"
    by (simp add: ExtractJSONPath_def)
  show ?thesis
    using a b c d e f ExtractJSONPath_loop_scalar [of cur p ps]
      ExtractJSONPath_loop_missing [of m p ps] ExtractJSONPath_loop_key [of m p v ps]
      ExtractJSONPath_loop_index [of p idx arr ps] ExtractJSONPath_loop_range [of p arr ps]
    by blast
qed


lemma Sscanf_d_2: "Sscanf_d ''2'' = Some 2"
  by (simp add: Sscanf_d_def SkipSpace.simps ascii_space_def signed_val_def isDigit_iff
      dec_val_def digit_val_def in_int64_def)

lemma nat_dec_1: "nat_dec (Suc 0) = ''1''"
  by (simp add: nat_dec.simps digit_char_def)

theorem ExtractJSONPath_spec_witness:
  "ExtractJSONPath (JStr ''s'' :: unit json) ''missing'' = Inr JNil
   \<and> ExtractJSONPath (JArr [JStr ''x'', JStr ''y''] :: unit json) ''1'' = Inr (JStr ''y'')
   \<and> ExtractJSONPath_loop (JStr ''s'' :: unit json) [''2''] = Inr JNil
   \<and> ExtractJSONPath_loop (JObj [(''a'', JStr ''s'')] :: unit json) [''2''] = Inr JNil
   \<and> ExtractJSONPath_loop (JArr [JStr ''x'', JStr ''y''] :: unit json) [''2''] = Inr JNil"
  using ExtractJSONPath_spec [where root = "JStr ''s'' :: unit json" and i = 1
      and arr = "[JStr ''x'', JStr ''y'']" and path = "''missing''" and cur = "JStr ''s''"
      and p = "''2''" and ps = "[]" and m = "[(''a'', JStr ''s'')]" and v = JNil and idx = 2]
  by (auto simp: Sscanf_d_2 nat_dec_1)

section \<open>Command execution and loading\<close>

text \<open>
  Claim C10. For every command whose static response text is not empty,
  \<open>FetchBotCommand\<close> returns that text unchanged, with a nil error, and does nothing
  else: no handler runs, whatever the kind of the command and whatever the handlers would
  do.
\<close>

theorem FetchBotCommand_static:
  "Response c \<noteq> [] \<Longrightarrow>
   FetchBotCommand H c linkstashURL ev groqAPIKey replyLabel = ([], Inr (Response c))"
  by (simp add: FetchBotCommand_def)

theorem FetchBotCommand_static_witness:
  "Response (zero_command\<lparr>Type := ''http'', Response := ''hello''\<rparr>) \<noteq> [] \<and>
   FetchBotCommand loud_handlers (zero_command\<lparr>Type := ''http'', Response := ''hello''\<rparr>)
     [] (ex_event ''$1'' ''/bot hi'' None) [] ''> '' = ([], Inr ''hello'')"
  using FetchBotCommand_static [of "zero_command\<lparr>Type := ''http'', Response := ''hello''\<rparr>"
      loud_handlers "[]" "ex_event ''$1'' ''/bot hi'' None" "[]" "''> ''"]
  by (simp add: zero_command_def)

lemma FetchBotCommand_unknown:
  assumes "Response c = []" "Type c \<notin> {''http'', ''exec'', ''ai'', ''builtin''}"
  shows "FetchBotCommand H c linkstashURL ev groqAPIKey replyLabel =
     ([], Inl (''unknown command type: '' @ Type c))"
  using assms by (simp add: FetchBotCommand_def)

lemma run_command_unknown_kind:
  assumes "Response c = []" "Type c \<notin> {''http'', ''exec'', ''ai'', ''builtin''}"
    "BotCfg app = Some bc" "map_of (Commands bc) cmd = Some c" "cmd \<noteq> ''help''"
  shows "run_command w app ev room cmd label =
     ([Fetch c, Send (RoomID ev) (ID ev) (label @ ''sorry, couldn't execute '' @ cmd @ '' right now'')],
      KnockKnock app)"
  using assms by (simp add: run_command_def FetchBotCommand_def SendBotReply_def)

text \<open>
  Claim C4, as amended. \<open>LoadBotConfig\<close> validates nothing: every configuration the
  JSON decoder yields is returned as it is. An entry with no static response and with a
  kind other than http, exec, ai and builtin surfaces at dispatch time:
  \<open>FetchBotCommand\<close> returns the error \<open>unknown command type: <kind>\<close>, as a value and
  without any effect, and the router answers it with
  \<open>sorry, couldn't execute <cmd> right now\<close>.
\<close>

theorem LoadBotConfig_no_validation:
  "(fs path = Inr f \<and> decode f = Inr bc \<longrightarrow> LoadBotConfig fs decode path = Inr bc)
   \<and> (Response c = [] \<and> Type c \<notin> {''http'', ''exec'', ''ai'', ''builtin''} \<longrightarrow>
        FetchBotCommand H c linkstashURL ev groqAPIKey replyLabel =
          ([], Inl (''unknown command type: '' @ Type c)))
   \<and> (Response c = [] \<and> Type c \<notin> {''http'', ''exec'', ''ai'', ''builtin''} \<and>
        BotCfg app = Some bc \<and> map_of (Commands bc) cmd = Some c \<and> cmd \<noteq> ''help'' \<longrightarrow>
        run_command w app ev room cmd label =
          ([Fetch c, Send (RoomID ev) (ID ev)
              (label @ ''sorry, couldn't execute '' @ cmd @ '' right now'')],
           KnockKnock app))"
  using FetchBotCommand_unknown [of c H linkstashURL ev groqAPIKey replyLabel]
    run_command_unknown_kind [of c app bc cmd w ev room label]
  by (auto simp: LoadBotConfig_def)

theorem LoadBotConfig_no_validation_witness:
  "LoadBotConfig ex_fs ex_decode ''./bot.json'' = Inr ex_botcfg
   \<and> FetchBotCommand loud_handlers (zero_command\<lparr>Type := ''bogus''\<rparr>) []
        (ex_event ''$1'' ''/bot bogus'' None) [] ''[BOT] '' =
        ([], Inl ''unknown command type: bogus'')
   \<and> run_command (ex_world (Inl ''unused'')) (ex_app [] (Some []))
        (ex_event ''$1'' ''/bot bogus'' None) (ex_room (Some [])) ''bogus'' ''[BOT] '' =
        ([Fetch (zero_command\<lparr>Type := ''bogus''\<rparr>),
          Send ''!room:example.com'' ''$1'' ''[BOT] sorry, couldn't execute bogus right now''],
         NewKnockKnockState)"
  using LoadBotConfig_no_validation [of ex_fs "''./bot.json''" "''(the document)''" ex_decode
      ex_botcfg "zero_command\<lparr>Type := ''bogus''\<rparr>" loud_handlers "[]"
      "ex_event ''$1'' ''/bot bogus'' None" "[]" "''[BOT] ''" "ex_app [] (Some [])" "''bogus''"
      "ex_world (Inl ''unused'')" "ex_room (Some [])" "''[BOT] ''"]
  by (simp add: ex_fs_def ex_decode_def zero_command_def ex_app_def ex_botcfg_def ex_event_def)

text \<open>
  Claim C4 as stated fails: the loader accepts a configuration whose command \<open>bogus\<close>
  has an unrecognized kind, and the error comes at dispatch time.
\<close>

theorem LoadBotConfig_counterexample:
  "LoadBotConfig ex_fs ex_decode ''./bot.json'' = Inr ex_botcfg
   \<and> map_of (Commands ex_botcfg) ''bogus'' = Some (zero_command\<lparr>Type := ''bogus''\<rparr>)
   \<and> Response (zero_command\<lparr>Type := ''bogus''\<rparr>) = []
   \<and> FetchBotCommand loud_handlers (zero_command\<lparr>Type := ''bogus''\<rparr>) []
        (ex_event ''$1'' ''/bot bogus'' None) [] ''[BOT] '' =
        ([], Inl ''unknown command type: bogus'')"
  by (simp add: LoadBotConfig_def ex_fs_def ex_decode_def ex_botcfg_def zero_command_def
      FetchBotCommand_def)

section \<open>The help message\<close>

text \<open>
  Claim C5, as amended. The help message is \<open>Available commands: \<close> followed by the
  listed names joined with \<open>", "\<close>; the names are sorted; for a permission list that
  is not empty they are exactly the names of that list, so the reserved name \<open>hi\<close> is
  listed if and only if the list holds it; for an empty or absent list they are exactly
  the names of the catalog.
\<close>

theorem help_names_spec:
  "GenerateHelpMessage bc allowed = ''Available commands: '' @ Join (help_names bc allowed) '', ''
   \<and> sorted (help_names bc allowed)
   \<and> (allowed \<noteq> [] \<longrightarrow> mset (help_names bc allowed) = mset allowed)
   \<and> (allowed \<noteq> [] \<longrightarrow> (''hi'' \<in> set (help_names bc allowed) \<longleftrightarrow> ''hi'' \<in> set allowed))
   \<and> (allowed = [] \<longrightarrow> mset (help_names bc allowed) = mset (map fst (Commands bc)))"
  by (simp add: GenerateHelpMessage_def help_names_def)

theorem help_names_spec_witness:
  "help_names ex_botcfg [''joke'', ''bogus''] = [''bogus'', ''joke'']
   \<and> GenerateHelpMessage ex_botcfg [''joke'', ''bogus''] = ''Available commands: bogus, joke''
   \<and> GenerateHelpMessage ex_botcfg [] = ''Available commands: bogus, hi, joke, knock''"
  using help_names_spec [of ex_botcfg "[''joke'', ''bogus'']"] help_names_spec [of ex_botcfg "[]"]
  by (simp add: help_names_def ex_botcfg_def)

text \<open>
  Claim C5 as stated fails: with the permission list \<open>["joke"]\<close> the help message
  lists \<open>joke\<close> alone, although the catalog has a command \<open>hi\<close>.
\<close>

theorem GenerateHelpMessage_counterexample:
  "map_of (Commands ex_botcfg) ''hi'' \<noteq> None
   \<and> GenerateHelpMessage ex_botcfg [''joke''] = ''Available commands: joke''
   \<and> ''hi'' \<notin> set (help_names ex_botcfg [''joke''])"
  by (simp add: GenerateHelpMessage_def help_names_def ex_botcfg_def)

section \<open>The router\<close>

lemma HandleMessage_dead:
  assumes "findRoom app (RoomID ev) = (room, ok)"
    "(RoomIDs (Cfg app) \<noteq> [] \<and> \<not> ok) \<or> (\<forall>msg. Content ev = Message msg \<longrightarrow> Body msg = [])
     \<or> store_error w \<noteq> None"
  shows "HandleMessage w app ev = (Ignored, [], app)"
proof (cases "Content ev")
  case (ParseError e)
  with assms(1) show ?thesis by (simp add: HandleMessage_def)
next
  case NotAMessage
  with assms(1) show ?thesis by (simp add: HandleMessage_def)
next
  case (Message msg)
  show ?thesis
  proof (cases "store_error w")
    case None
    with assms Message show ?thesis by (auto simp: HandleMessage_def)
  next
    case (Some e)
    with assms(1) Message show ?thesis by (simp add: HandleMessage_def)
  qed
qed

lemma HandleMessage_live:
  assumes "findRoom app (RoomID ev) = (room, ok)" "RoomIDs (Cfg app) = [] \<or> ok"
    "Content ev = Message msg" "Body msg \<noteq> []" "store_error w = None"
    "app1 = app\<lparr>MessagesDB := StoreMessage (MessagesDB app) ev msg\<rparr>"
  shows "HandleMessage w app ev =
     (if BotReplyLabel (Cfg app) \<noteq> [] \<and> Contains (Body msg) (BotReplyLabel (Cfg app))
      then (Ignored, [], app1)
      else
        case pending_reply app1 msg of
          Some (step, target) \<Rightarrow> (ConversationContinuation, [GoReply ev step target], app1)
        | None \<Rightarrow>
            if AllowedCommands room \<noteq> None \<and>
               (HasPrefix (Body msg) ''/bot'' \<or> HasPrefix (Body msg) ''@gork'')
            then
              (case dispatchBotCommand w app1 ev msg room of
                 (acts, kk) \<Rightarrow> (Command, acts, app1\<lparr>KnockKnock := kk\<rparr>))
            else (PassThrough, [ProcessLinks], app1))"
  using assms by (auto simp: HandleMessage_def Let_def)


lemma HandleMessage_no_list:
  assumes "findRoom app (RoomID ev) = (room, ok)" "AllowedCommands room = None"
  shows "fst (HandleMessage w app ev) \<noteq> Command"
proof (cases "(RoomIDs (Cfg app) \<noteq> [] \<and> \<not> ok) \<or>
    (\<forall>msg. Content ev = Message msg \<longrightarrow> Body msg = []) \<or> store_error w \<noteq> None")
  case True
  with assms(1) have "HandleMessage w app ev = (Ignored, [], app)" by (rule HandleMessage_dead)
  then show ?thesis by simp
next
  case False
  then obtain msg where m: "Content ev = Message msg" "Body msg \<noteq> []" by blast
  from False have l: "RoomIDs (Cfg app) = [] \<or> ok" "store_error w = None" by auto
  show ?thesis
    by (simp add: HandleMessage_live [OF assms(1) l(1) m l(2) refl] assms(2)
        split: option.splits prod.splits)
qed

lemma HandleMessage_command:
  assumes "findRoom app (RoomID ev) = (room, ok)" "Content ev = Message msg"
    "fst (HandleMessage w app ev) = Command"
    "app1 = app\<lparr>MessagesDB := StoreMessage (MessagesDB app) ev msg\<rparr>"
  shows "snd (HandleMessage w app ev) =
     (case dispatchBotCommand w app1 ev msg room of
        (acts, kk) \<Rightarrow> (acts, app1\<lparr>KnockKnock := kk\<rparr>))"
proof (cases "(RoomIDs (Cfg app) \<noteq> [] \<and> \<not> ok) \<or>
    (\<forall>msg. Content ev = Message msg \<longrightarrow> Body msg = []) \<or> store_error w \<noteq> None")
  case True
  with assms(1) have "HandleMessage w app ev = (Ignored, [], app)" by (rule HandleMessage_dead)
  with assms(3) show ?thesis by simp
next
  case False
  then have m: "Body msg \<noteq> []" using assms(2) by auto
  from False have l: "RoomIDs (Cfg app) = [] \<or> ok" "store_error w = None" by auto
  show ?thesis
    using assms(3)
    by (auto simp: HandleMessage_live [OF assms(1) l(1) assms(2) m l(2) assms(4)]
        split: option.splits prod.splits if_splits)
qed

lemma dispatch_denied:
  assumes "AllowedCommands room = Some xs" "xs \<noteq> []" "cmd = command_name (Body msg)"
    "cmd \<notin> set xs" "cmd \<noteq> ''hi''" "label = ResolveReplyLabel (Some (Cfg app)) (BotCfg app)"
  shows "dispatchBotCommand w app ev msg room =
     (if DryRun (Cfg app) \<or> \<not> ready w then []
      else [Send (RoomID ev) (ID ev) (label @ ''command not allowed in this room'')],
      KnockKnock app)"
  using assms
  by (simp add: dispatchBotCommand_def allowed_list_def InSlice_iff SendBotReply_def Let_def)

lemma dispatch_permitted:
  assumes "\<not> DryRun (Cfg app)" "ready w" "cmd = command_name (Body msg)"
    "label = ResolveReplyLabel (Some (Cfg app)) (BotCfg app)"
    "AllowedCommands room = Some xs" "xs = [] \<or> cmd \<in> set xs \<or> cmd = ''hi''"
  shows "dispatchBotCommand w app ev msg room = run_command w app ev room cmd label"
  using assms
  by (auto simp: dispatchBotCommand_def allowed_list_def InSlice_iff Let_def)


text \<open>
  Claim C1. For a message in the room \<open>room\<close> with the command name \<open>cmd\<close>: when
  the room has no list of allowed commands, the message is never handled as a command;
  when it is handled as a command and the dispatch goes ahead (the bot is not in dry-run
  mode and the ready signal came before cancellation), an empty list permits every
  name, and a list permits the names it holds and the reserved name \<open>hi\<close>: the
  result is what \<open>run_command\<close> does; and a name that a non-empty list does not hold,
  other than \<open>hi\<close>, is answered with the label followed by
  \<open>command not allowed in this room\<close> and nothing else: \<open>FetchBotCommand\<close> is not
  called and the knock-knock store is unchanged (in dry-run mode, or when cancelled
  before ready, nothing at all is done).
\<close>

theorem permission_gate:
  assumes "findRoom app (RoomID ev) = (room, ok)" "Content ev = Message msg"
    "cmd = command_name (Body msg)"
    "label = ResolveReplyLabel (Some (Cfg app)) (BotCfg app)"
    "app1 = app\<lparr>MessagesDB := StoreMessage (MessagesDB app) ev msg\<rparr>"
  shows
    "(AllowedCommands room = None \<longrightarrow> fst (HandleMessage w app ev) \<noteq> Command)
     \<and> (\<forall>xs. fst (HandleMessage w app ev) = Command \<and> \<not> DryRun (Cfg app) \<and> ready w \<and>
            AllowedCommands room = Some xs \<and> (xs = [] \<or> cmd \<in> set xs \<or> cmd = ''hi'') \<longrightarrow>
          snd (HandleMessage w app ev) =
            (case run_command w app1 ev room cmd label of
               (acts, kk) \<Rightarrow> (acts, app1\<lparr>KnockKnock := kk\<rparr>)))
     \<and> (\<forall>xs. fst (HandleMessage w app ev) = Command \<and> AllowedCommands room = Some xs \<and>
            xs \<noteq> [] \<and> cmd \<notin> set xs \<and> cmd \<noteq> ''hi'' \<longrightarrow>
          snd (HandleMessage w app ev) =
            (if DryRun (Cfg app) \<or> \<not> ready w then []
             else [Send (RoomID ev) (ID ev) (label @ ''command not allowed in this room'')],
             app1)
          \<and> (\<forall>c. Fetch c \<notin> set (fst (snd (HandleMessage w app ev)))))"
proof (intro conjI allI impI)
  assume "AllowedCommands room = None"
  with assms(1) show "fst (HandleMessage w app ev) \<noteq> Command" by (rule HandleMessage_no_list)
next
  fix xs
  assume a: "fst (HandleMessage w app ev) = Command \<and> \<not> DryRun (Cfg app) \<and> ready w \<and>
    AllowedCommands room = Some xs \<and> (xs = [] \<or> cmd \<in> set xs \<or> cmd = ''hi'')"
  have c1: "Cfg app1 = Cfg app" "BotCfg app1 = BotCfg app" by (simp_all add: assms(5))
  have "dispatchBotCommand w app1 ev msg room = run_command w app1 ev room cmd label"
    using a assms(3,4) c1 by (intro dispatch_permitted [where xs = xs]) simp_all
  then show "snd (HandleMessage w app ev) =
      (case run_command w app1 ev room cmd label of
         (acts, kk) \<Rightarrow> (acts, app1\<lparr>KnockKnock := kk\<rparr>))"
    using HandleMessage_command [OF assms(1,2) _ assms(5), of w] a by simp
next
  fix xs
  assume a: "fst (HandleMessage w app ev) = Command \<and> AllowedCommands room = Some xs \<and>
    xs \<noteq> [] \<and> cmd \<notin> set xs \<and> cmd \<noteq> ''hi''"
  have c1: "Cfg app1 = Cfg app" "BotCfg app1 = BotCfg app" by (simp_all add: assms(5))
  have d: "dispatchBotCommand w app1 ev msg room =
     (if DryRun (Cfg app) \<or> \<not> ready w then []
      else [Send (RoomID ev) (ID ev) (label @ ''command not allowed in this room'')],
      KnockKnock app1)"
    using dispatch_denied [of room xs cmd msg label app1 w ev] a assms(3,4) c1 by simp
  have k: "app1\<lparr>KnockKnock := KnockKnock app1\<rparr> = app1" by simp
  show r: "snd (HandleMessage w app ev) =
      (if DryRun (Cfg app) \<or> \<not> ready w then []
       else [Send (RoomID ev) (ID ev) (label @ ''command not allowed in this room'')],
       app1)"
    using HandleMessage_command [OF assms(1,2) _ assms(5), of w] a by (simp add: d k)
  fix c
  show "Fetch c \<notin> set (fst (snd (HandleMessage w app ev)))" by (simp add: r)
qed


lemma ex_findRoom:
  "findRoom (ex_app lab allowed) (RoomID (ex_event i b t)) = (ex_room allowed, True)"
  by (simp add: findRoom_def ex_app_def ex_config_def ex_event_def ex_room_def)

lemma ex_fields:
  "BotReplyLabel (Cfg (ex_app lab allowed)) = lab"
  "RoomIDs (Cfg (ex_app lab allowed)) = [ex_room allowed]"
  "\<not> DryRun (Cfg (ex_app lab allowed))"
  "MessagesDB (ex_app lab allowed) = []"
  "BotCfg (ex_app lab allowed) = Some ex_botcfg"
  "KnockKnock (ex_app lab allowed) = NewKnockKnockState"
  "AllowedCommands (ex_room allowed) = allowed"
  "Content (ex_event i b t) = Message \<lparr>MsgType = ''m.text'', Body = b, InReplyTo = t\<rparr>"
  "RoomID (ex_event i b t) = ''!room:example.com''"
  "ID (ex_event i b t) = i"
  "store_error (ex_world r) = None"
  "ready (ex_world r)"
  "send_result (ex_world r) = r"
  "handlers (ex_world r) = loud_handlers"
  by (simp_all add: ex_app_def ex_config_def ex_room_def ex_event_def ex_world_def)

lemma ex_live:
  assumes "b \<noteq> []" "msg = \<lparr>MsgType = ''m.text'', Body = b, InReplyTo = t\<rparr>"
    "app1 = (ex_app lab allowed)\<lparr>MessagesDB := StoreMessage [] (ex_event i b t) msg\<rparr>"
  shows "HandleMessage (ex_world r) (ex_app lab allowed) (ex_event i b t) =
     (if lab \<noteq> [] \<and> Contains b lab then (Ignored, [], app1)
      else
        case pending_reply app1 msg of
          Some (step, target) \<Rightarrow>
            (ConversationContinuation, [GoReply (ex_event i b t) step target], app1)
        | None \<Rightarrow>
            if allowed \<noteq> None \<and> (HasPrefix b ''/bot'' \<or> HasPrefix b ''@gork'')
            then
              (case dispatchBotCommand (ex_world r) app1 (ex_event i b t) msg (ex_room allowed) of
                 (acts, kk) \<Rightarrow> (Command, acts, app1\<lparr>KnockKnock := kk\<rparr>))
            else (PassThrough, [ProcessLinks], app1))"
proof -
  have m: "Body msg \<noteq> []" "Body msg = b" using assms(1,2) by simp_all
  have c: "Content (ex_event i b t) = Message msg" by (simp add: ex_fields assms(2))
  have a: "app1 = (ex_app lab allowed)\<lparr>MessagesDB :=
      StoreMessage (MessagesDB (ex_app lab allowed)) (ex_event i b t) msg\<rparr>"
    by (simp add: assms(3) ex_fields)
  show ?thesis
    by (auto simp: HandleMessage_live [OF ex_findRoom _ c m(1) ex_fields(11) a] m(2) ex_fields)
qed

lemma cn1: "command_name ''/bot bogus'' = ''bogus''"
  by code_simp

lemma ex_route_command:
  "fst (HandleMessage (ex_world (Inl ''unused'')) (ex_app [] (Some [''joke'']))
     (ex_event ''$1'' ''/bot bogus'' None)) = Command"
  by (simp add: ex_live [OF _ refl refl] pending_reply_def HasPrefix_def split: prod.splits)

theorem permission_gate_witness:
  "fst (HandleMessage (ex_world (Inl ''unused'')) (ex_app [] (Some [''joke'']))
     (ex_event ''$1'' ''/bot bogus'' None)) = Command
   \<and> fst (snd (HandleMessage (ex_world (Inl ''unused'')) (ex_app [] (Some [''joke'']))
     (ex_event ''$1'' ''/bot bogus'' None))) =
     [Send ''!room:example.com'' ''$1'' ''[BOT] command not allowed in this room'']
   \<and> fst (HandleMessage (ex_world (Inl ''unused'')) (ex_app [] None)
     (ex_event ''$1'' ''/bot bogus'' None)) \<noteq> Command"
proof -
  let ?w = "ex_world (Inl ''unused'') :: string world"
  let ?ev = "ex_event ''$1'' ''/bot bogus'' None"
  let ?msg = "\<lparr>MsgType = ''m.text'', Body = ''/bot bogus'', InReplyTo = None\<rparr>"
  have c: "Content ?ev = Message ?msg" by (simp add: ex_event_def)
  have cn: "''bogus'' = command_name (Body ?msg)" by (simp add: cn1)
  have lab: "''[BOT] '' = ResolveReplyLabel (Some (Cfg (ex_app [] (Some [''joke'']))))
      (BotCfg (ex_app [] (Some [''joke''])))"
    by (simp add: ResolveReplyLabel_def ex_app_def ex_config_def ex_botcfg_def)
  have lab0: "''[BOT] '' = ResolveReplyLabel (Some (Cfg (ex_app [] None)))
      (BotCfg (ex_app [] None))"
    by (simp add: ResolveReplyLabel_def ex_app_def ex_config_def ex_botcfg_def)
  have dr: "\<not> DryRun (Cfg (ex_app [] (Some [''joke''])))" "ready ?w"
    by (simp_all add: ex_app_def ex_config_def ex_world_def)
  have al: "AllowedCommands (ex_room (Some [''joke''])) = Some [''joke'']"
    "AllowedCommands (ex_room None) = None"
    by (simp_all add: ex_room_def)
  from permission_gate [OF ex_findRoom c cn lab refl, of ?w] ex_route_command al(1) dr
  have "snd (HandleMessage ?w (ex_app [] (Some [''joke''])) ?ev) =
      ([Send (RoomID ?ev) (ID ?ev) (''[BOT] '' @ ''command not allowed in this room'')],
       (ex_app [] (Some [''joke'']))\<lparr>MessagesDB :=
          StoreMessage (MessagesDB (ex_app [] (Some [''joke'']))) ?ev ?msg\<rparr>)"
    by simp
  moreover from permission_gate [OF ex_findRoom c cn lab0 refl, of ?w] al(2)
  have "fst (HandleMessage ?w (ex_app [] None) ?ev) \<noteq> Command" by simp
  ultimately show ?thesis using ex_route_command by (simp add: ex_event_def)
qed


text \<open>
  Claim C9, as amended. When the configuration sets a reply label (\<open>Cfg.BotReplyLabel\<close>
  is not empty), that label is the one the bot stamps on its replies, and a message whose
  body contains it is ignored: no call is made, no goroutine is started and the
  knock-knock store is unchanged, so the message is neither a continuation of a
  conversation nor a command. The test is on the label: a message of a monitored room
  that was parsed and stored and does not contain it is not ignored.
\<close>

theorem reply_label_ignored:
  assumes "Content ev = Message msg" "BotReplyLabel (Cfg app) \<noteq> []"
  shows
    "ResolveReplyLabel (Some (Cfg app)) (BotCfg app) = BotReplyLabel (Cfg app)
     \<and> (Contains (Body msg) (BotReplyLabel (Cfg app)) \<longrightarrow>
        fst (HandleMessage w app ev) = Ignored
        \<and> fst (snd (HandleMessage w app ev)) = []
        \<and> KnockKnock (snd (snd (HandleMessage w app ev))) = KnockKnock app)
     \<and> (\<not> Contains (Body msg) (BotReplyLabel (Cfg app)) \<and>
          (RoomIDs (Cfg app) = [] \<or> snd (findRoom app (RoomID ev))) \<and>
          Body msg \<noteq> [] \<and> store_error w = None \<longrightarrow>
        fst (HandleMessage w app ev) \<noteq> Ignored)"
proof (intro conjI impI)
  show "ResolveReplyLabel (Some (Cfg app)) (BotCfg app) = BotReplyLabel (Cfg app)"
    using assms(2) by (simp add: ResolveReplyLabel_def)
next
  assume a: "Contains (Body msg) (BotReplyLabel (Cfg app))"
  obtain room ok where f: "findRoom app (RoomID ev) = (room, ok)" by (cases "findRoom app (RoomID ev)")
  have "HandleMessage w app ev = (Ignored, [], app) \<or>
    HandleMessage w app ev =
      (Ignored, [], app\<lparr>MessagesDB := StoreMessage (MessagesDB app) ev msg\<rparr>)"
  proof (cases "(RoomIDs (Cfg app) \<noteq> [] \<and> \<not> ok) \<or>
      (\<forall>msg. Content ev = Message msg \<longrightarrow> Body msg = []) \<or> store_error w \<noteq> None")
    case True
    with f show ?thesis by (simp add: HandleMessage_dead)
  next
    case False
    then have l: "RoomIDs (Cfg app) = [] \<or> ok" "Body msg \<noteq> []" "store_error w = None"
      using assms(1) by auto
    show ?thesis using a assms(2) by (simp add: HandleMessage_live [OF f l(1) assms(1) l(2,3) refl])
  qed
  then show "fst (HandleMessage w app ev) = Ignored"
    "fst (snd (HandleMessage w app ev)) = []"
    "KnockKnock (snd (snd (HandleMessage w app ev))) = KnockKnock app"
    by auto
next
  assume a: "\<not> Contains (Body msg) (BotReplyLabel (Cfg app)) \<and>
    (RoomIDs (Cfg app) = [] \<or> snd (findRoom app (RoomID ev))) \<and>
    Body msg \<noteq> [] \<and> store_error w = None"
  obtain room ok where f: "findRoom app (RoomID ev) = (room, ok)" by (cases "findRoom app (RoomID ev)")
  have l: "RoomIDs (Cfg app) = [] \<or> ok" using a f by simp
  show "fst (HandleMessage w app ev) \<noteq> Ignored"
    using a
    by (simp add: HandleMessage_live [OF f l assms(1) _ _ refl] split: option.splits prod.splits)
qed

lemma ex_hi_command:
  "HandleMessage (ex_world (Inl ''unused'')) (ex_app [] (Some []))
     (ex_event ''$1'' ''/bot hi [BOT] '' None) =
   (Command,
    [Fetch (zero_command\<lparr>Response := ''hello''\<rparr>),
     Send ''!room:example.com'' ''$1'' ''[BOT] hello''],
    (ex_app [] (Some []))\<lparr>MessagesDB :=
       StoreMessage [] (ex_event ''$1'' ''/bot hi [BOT] '' None)
         \<lparr>MsgType = ''m.text'', Body = ''/bot hi [BOT] '', InReplyTo = None\<rparr>\<rparr>)"
proof -
  have cn: "command_name ''/bot hi [BOT] '' = ''hi''" by code_simp
  have lab: "ResolveReplyLabel (Some (Cfg (ex_app [] (Some [])))) (Some ex_botcfg) = ''[BOT] ''"
    by (simp add: ResolveReplyLabel_def ex_fields ex_botcfg_def)
  have look: "map_of (Commands ex_botcfg) ''hi'' = Some (zero_command\<lparr>Response := ''hello''\<rparr>)"
    by (simp add: ex_botcfg_def)
  have r: "Response (zero_command\<lparr>Response := ''hello''\<rparr>) = ''hello''"
    "Type (zero_command\<lparr>Response := ''hello''\<rparr>) = []"
    by (simp_all add: zero_command_def)
  show ?thesis
    by (simp add: ex_live [OF _ refl refl] pending_reply_def HasPrefix_def Get_step_def
        NewKnockKnockState_def ex_fields dispatchBotCommand_def allowed_list_def cn lab
        run_command_def look r FetchBotCommand_def SendBotReply_def)
qed

text \<open>
  Claim C9 as stated fails: the configuration sets no label, the bot stamps its replies
  with the label \<open>[BOT] \<close> of the catalog, and a message whose body contains that label
  is dispatched as a command and answered.
\<close>

theorem reply_label_counterexample:
  "BotReplyLabel (Cfg (ex_app [] (Some []))) = []
   \<and> ResolveReplyLabel (Some (Cfg (ex_app [] (Some [])))) (BotCfg (ex_app [] (Some []))) = ''[BOT] ''
   \<and> Contains ''/bot hi [BOT] '' ''[BOT] ''
   \<and> fst (HandleMessage (ex_world (Inl ''unused'')) (ex_app [] (Some []))
        (ex_event ''$1'' ''/bot hi [BOT] '' None)) = Command
   \<and> fst (snd (HandleMessage (ex_world (Inl ''unused'')) (ex_app [] (Some []))
        (ex_event ''$1'' ''/bot hi [BOT] '' None))) =
       [Fetch (zero_command\<lparr>Response := ''hello''\<rparr>),
        Send ''!room:example.com'' ''$1'' ''[BOT] hello'']"
proof -
  have c: "Contains ''/bot hi [BOT] '' ''[BOT] ''" by code_simp
  have lab: "ResolveReplyLabel (Some (Cfg (ex_app [] (Some [])))) (BotCfg (ex_app [] (Some []))) = ''[BOT] ''"
    by (simp add: ResolveReplyLabel_def ex_app_def ex_config_def ex_botcfg_def)
  show ?thesis using c lab by (simp add: ex_hi_command ex_fields)
qed

theorem reply_label_ignored_witness:
  "ResolveReplyLabel (Some (Cfg (ex_app ''[BOT] '' (Some [])))) (BotCfg (ex_app ''[BOT] '' (Some []))) =
     ''[BOT] ''
   \<and> fst (HandleMessage (ex_world (Inl ''unused'')) (ex_app ''[BOT] '' (Some []))
        (ex_event ''$1'' ''/bot hi [BOT] '' None)) = Ignored
   \<and> fst (snd (HandleMessage (ex_world (Inl ''unused'')) (ex_app ''[BOT] '' (Some []))
        (ex_event ''$1'' ''/bot hi [BOT] '' None))) = []
   \<and> fst (HandleMessage (ex_world (Inl ''unused'')) (ex_app ''[BOT] '' (Some []))
        (ex_event ''$2'' ''/bot hi'' None)) \<noteq> Ignored"
proof -
  have c: "Contains ''/bot hi [BOT] '' ''[BOT] ''" "\<not> Contains ''/bot hi'' ''[BOT] ''"
    by code_simp+
  have f: "snd (findRoom (ex_app ''[BOT] '' (Some [])) (RoomID (ex_event ''$2'' ''/bot hi'' None)))"
    by (simp add: ex_findRoom)
  have l: "BotReplyLabel (Cfg (ex_app ''[BOT] '' (Some []))) \<noteq> []" by (simp add: ex_fields)
  note m1 = ex_fields(8) [of "''$1''" "''/bot hi [BOT] ''" None]
  note m2 = ex_fields(8) [of "''$2''" "''/bot hi''" None]
  show ?thesis
    using reply_label_ignored [OF m1 l, where w = "ex_world (Inl ''unused'') :: string world"]
      reply_label_ignored [OF m2 l, where w = "ex_world (Inl ''unused'') :: string world"] c f
    by (simp add: ex_fields)
qed
section \<open>The knock-knock exchange\<close>




lemma handleKnockKnockReply_db:
  "handleKnockKnockReply w (a\<lparr>MessagesDB := d\<rparr>) ev step t = handleKnockKnockReply w a ev step t"
  by (simp add: handleKnockKnockReply_def)
















section \<open>The leaderboard\<close>









lemma qualifies_iff:
  "qualifies roomID cutoff r \<longleftrightarrow>
     row_room_id r = roomID \<and> cutoff \<le> row_ts_ms r \<and> row_msgtype r = ''m.text'' \<and>
     \<not> like_prefix (row_body r) ''[BOT]'' \<and> \<not> like_prefix (row_body r) ''/bot ''"
  by (auto simp: qualifies_def)

lemma yap_groups_senders:
  "map fst (yap_groups db roomID cutoff) =
     remdups (map row_sender (filter (qualifies roomID cutoff) db))"
  by (simp add: yap_groups_def Let_def comp_def)



lemma ordered_desc_set:
  assumes "ordered_desc gs rows"
  shows "set rows = set gs"
  using assms by (metis ordered_desc_def set_mset_mset)

lemma ordered_desc_sorted:
  assumes "ordered_desc gs rows"
  shows "sorted_wrt (\<lambda>a b. snd b \<le> snd a) rows"
  using assms by (simp add: ordered_desc_def)

lemma ordered_desc_distinct:
  assumes "ordered_desc (yap_groups db roomID cutoff) rows"
  shows "distinct (map fst rows)"
proof -
  have "mset (map fst rows) = mset (map fst (yap_groups db roomID cutoff))"
    using assms by (simp add: ordered_desc_def)
  moreover have "distinct (map fst (yap_groups db roomID cutoff))"
    by (simp add: yap_groups_senders)
  ultimately show ?thesis by (metis mset_eq_imp_distinct_iff)
qed

lemma ordered_desc_senders:
  assumes "ordered_desc (yap_groups db roomID cutoff) rows"
  shows "fst ` set rows = row_sender ` {r \<in> set db. qualifies roomID cutoff r}"
proof -
  have "fst ` set rows = set (map fst (yap_groups db roomID cutoff))"
    using ordered_desc_set [OF assms] by simp
  also have "\<dots> = row_sender ` {r \<in> set db. qualifies roomID cutoff r}"
    by (simp add: yap_groups_senders)
  finally show ?thesis .
qed


lemma ordered_desc_unique:
  assumes "ordered_desc gs rows" "mset gs = mset ys" "sorted_wrt (\<lambda>a b. snd b < snd a) ys"
  shows "rows = ys"
proof -
  let ?k = "\<lambda>g :: string \<times> int. - snd g"
  have m: "mset rows = mset ys" using assms(1,2) by (simp add: ordered_desc_def)
  have s1: "sorted (map ?k rows)"
    using assms(1) by (simp add: ordered_desc_def sorted_map)
  have "sorted_wrt (<) (map ?k ys)" using assms(3) by (simp add: sorted_wrt_map)
  then have s2: "sorted (map ?k ys)" "distinct (map ?k ys)"
    by (simp_all add: strict_sorted_iff)
  have mm: "mset (map ?k rows) = mset (map ?k ys)" using m by simp
  then have d1: "distinct (map ?k rows)" using s2(2) by (metis mset_eq_imp_distinct_iff)
  have "set (map ?k rows) = set (map ?k ys)" using mm by (metis set_mset_mset)
  then have e: "map ?k rows = map ?k ys"
    using s1 s2 d1 by (intro sorted_distinct_set_unique)
  have "set rows = set ys" using m by (metis set_mset_mset)
  moreover have "inj_on ?k (set ys)" using s2(2) by (simp add: distinct_map)
  ultimately have "inj_on ?k (set rows \<union> set ys)" by simp
  then show ?thesis using e by (simp add: inj_on_map_eq_map)
qed

lemma rank_bounds:
  fixes rows :: "(string \<times> int) list"
  assumes "sorted_wrt (\<lambda>a b. snd b \<le> snd a) rows" "p < length rows" "rows ! p = (s, c)"
  shows "length (filter (\<lambda>g. c < snd g) rows) \<le> p"
    and "p < length (filter (\<lambda>g. c \<le> snd g) rows)"
proof -
  have split: "rows = take p rows @ (s, c) # drop (Suc p) rows"
    using assms(2,3) by (metis id_take_nth_drop)
  have srt: "sorted_wrt (\<lambda>a b. snd b \<le> snd a) (take p rows @ (s, c) # drop (Suc p) rows)"
    using assms(1) split by simp
  have before: "\<forall>x\<in>set (take p rows). c \<le> snd x"
    using srt by (auto simp: sorted_wrt_append)
  have after: "\<forall>y\<in>set (drop (Suc p) rows). snd y \<le> c"
    using srt by (auto simp: sorted_wrt_append)
  have lp: "length (take p rows) = p" using assms(2) by simp
  have f1: "filter (\<lambda>g. c < snd g) ((s, c) # drop (Suc p) rows) = []"
    using after by (auto simp: filter_empty_conv)
  have "length (filter (\<lambda>g. c < snd g) rows) =
      length (filter (\<lambda>g. c < snd g) (take p rows @ (s, c) # drop (Suc p) rows))"
    using split by simp
  also have "\<dots> = length (filter (\<lambda>g. c < snd g) (take p rows))"
    using f1 by (simp del: filter.simps)
  also have "\<dots> \<le> p" using length_filter_le [of _ "take p rows"] lp by simp
  finally show "length (filter (\<lambda>g. c < snd g) rows) \<le> p" .
  have f2: "filter (\<lambda>g. c \<le> snd g) (take p rows) = take p rows"
    using before by (simp add: filter_id_conv)
  have "length (filter (\<lambda>g. c \<le> snd g) rows) =
      length (filter (\<lambda>g. c \<le> snd g) (take p rows @ (s, c) # drop (Suc p) rows))"
    using split by simp
  also have "\<dots> = p + Suc (length (filter (\<lambda>g. c \<le> snd g) (drop (Suc p) rows)))"
    using f2 lp by simp
  finally show "p < length (filter (\<lambda>g. c \<le> snd g) rows)" by simp
qed


lemma stable_desc_ordered: "ordered_desc gs (stable_desc gs)"
proof -
  have "sorted (map (\<lambda>g. - snd g) (stable_desc gs))" by (simp add: stable_desc_def)
  then show ?thesis by (simp add: ordered_desc_def stable_desc_def sorted_map)
qed

lemma name_desc_ordered: "ordered_desc gs (name_desc gs)"
proof -
  have "sorted (map snd (sort_key snd (sort_key fst gs)))" by simp
  then have "sorted_wrt (\<lambda>a b. snd a \<le> snd b) (sort_key snd (sort_key fst gs))"
    by (simp only: sorted_map)
  then have "sorted_wrt (\<lambda>a b. snd b \<le> snd a) (rev (sort_key snd (sort_key fst gs)))"
    by (simp add: sorted_wrt_rev)
  then show ?thesis by (simp add: ordered_desc_def name_desc_def)
qed







lemma busy_groups:
  "yap_groups busy_db ''!testroom:example.com'' 1000 =
     [(''@bob:example.com'', 3), (''@zed:example.com'', 3), (''@alice:example.com'', 5)]"
  by code_simp

lemma busy_rows:
  "name_desc [(''@bob:example.com'', 3), (''@zed:example.com'', 3), (''@alice:example.com'', 5)] =
     [(''@alice:example.com'', 5), (''@zed:example.com'', 3), (''@bob:example.com'', 3)]"
  "stable_desc [(''@bob:example.com'', 3), (''@zed:example.com'', 3), (''@alice:example.com'', 5)] =
     [(''@alice:example.com'', 5), (''@bob:example.com'', 3), (''@zed:example.com'', 3)]"
  by code_simp+



lemma test_world_fields:
  "yap_db (test_world db cl engine) = Some db"
  "query_error (test_world db cl engine) = None"
  "start_of_today (test_world db cl engine) = 1000"
  "matrix_client (test_world db cl engine) = cl"
  "order_by (test_world db cl engine) = engine"
  "RoomID (test_event s) = ''!testroom:example.com''"
  "Sender (test_event s) = s"
  "ID (test_event s) = ''$ev''"
  by (simp_all add: test_world_def test_event_def)



lemma test_top:
  "QueryTopYappers (test_world test_db None stable_desc) (test_event ''@carol:example.com'') [] [] False =
     ([], Inr (''top yappers (today):'' @ [CHR 0x0A] @
               ''1. alice '' @ emdash @ '' 10 words'' @ [CHR 0x0A] @
               ''2. bob '' @ emdash @ '' 6 words'' @ [CHR 0x0A] @
               ''3. carol '' @ emdash @ '' 1 words''))"
  by code_simp

lemma guess_scan_absent:
  "s \<notin> fst ` set rows \<Longrightarrow> guess_scan rows s (r, a, t) = (r + int (length rows), a, t)"
  by (induction rows arbitrary: r) auto

lemma guess_scan_present:
  assumes "distinct (map fst rows)" "p < length rows" "rows ! p = (s, c)"
  shows "guess_scan rows s (r, a, t) = (r + int (length rows), r + int p + 1, c)"
  using assms
proof (induction rows arbitrary: r a t p)
  case Nil
  then show ?case by simp
next
  case (Cons x rows)
  obtain s' c' where x: "x = (s', c')" by (cases x)
  show ?case
  proof (cases p)
    case 0
    with Cons.prems x have e: "s' = s" "c' = c" by simp_all
    have "s \<notin> fst ` set rows" using Cons.prems(1) x e by auto
    then show ?thesis using x e 0 by (simp add: guess_scan_absent)
  next
    case (Suc p')
    with Cons.prems x have p': "p' < length rows" "rows ! p' = (s, c)" by simp_all
    have "s \<in> fst ` set rows" using p' by (metis fst_conv image_eqI nth_mem)
    then have ne: "s' \<noteq> s" using Cons.prems(1) x by auto
    have d: "distinct (map fst rows)" using Cons.prems(1) by simp
    show ?thesis using Cons.IH [OF d p'] ne x Suc by simp
  qed
qed

lemma queryYapGuess_absent:
  assumes "query_error yw = None"
    "Sender ev \<notin> fst ` set (yap_ranking yw db (RoomID ev) (start_of_today yw))"
  shows "queryYapGuess yw db ev guessArg replyLabel = ([], Inr ''you have no messages today!'')"
  using assms by (simp add: queryYapGuess_def guess_scan_absent Let_def)

lemma queryYapGuess_present:
  assumes "query_error yw = None"
    "rows = yap_ranking yw db (RoomID ev) (start_of_today yw)"
    "distinct (map fst rows)" "p < length rows" "rows ! p = (Sender ev, c)"
    "m = guess_message replyLabel (guess_number guessArg) (int p + 1) c"
  shows "queryYapGuess yw db ev guessArg replyLabel =
     (case matrix_client yw of
        None \<Rightarrow> ([], Inr m)
      | Some cl \<Rightarrow>
          ([\<lparr>msg_body = m, msg_formatted = [], msg_reply_to = ID ev\<rparr>],
           (case send_error cl of
              None \<Rightarrow> Inr []
            | Some err \<Rightarrow> Inl (''send yap guess reply: '' @ err))))"
  using assms(1,6) guess_scan_present [OF assms(3,4,5), of 0 0 0]
  by (simp add: queryYapGuess_def Let_def assms(2) [symmetric] split: option.splits)

lemma Itoa_small: "Itoa 1 = ''1''" "Itoa 2 = ''2''" "Itoa 6 = ''6''" "Itoa 10 = ''10''"
  by (simp_all add: Itoa_def nat_dec.simps digit_char_def)

lemma guess_message_bob:
  "guess_message replyLabel 1 2 6 =
     replyLabel @ ''you guessed #1 but you're actually #2 (6 words) '' @ emdash @
       '' 1 position(s) higher than you thought''"
  by (simp add: guess_message_def Itoa_small)

lemma guess_message_alice:
  "guess_message replyLabel 1 1 10 =
     replyLabel @ ''you guessed #1 '' @ emdash @ '' that's exactly right! (10 words)''"
  by (simp add: guess_message_def Itoa_small)


text \<open>
  Claim C3, as amended. \<open>rows\<close> is the ranking the database returns for the room of the
  event and the day, sorted by the engine with the sums descending. When the query
  succeeds, \<open>queryYapGuess\<close> gives \<open>you have no messages today!\<close>, with a nil error and
  nothing sent, to a sender with no message that the query keeps. A sender at the
  position \<open>p\<close> of the ranking, counted from 0, gets the message for the guess, the rank
  \<open>p + 1\<close> and the sender's count: returned when there is no client, sent as a reply
  when there is one. Every sender with a greater count is ahead and no sender with a
  smaller count is. The message says \<open>exactly right\<close> when the guess is the rank,
  \<open>lower\<close> with the distance when the guess is the greater number, and \<open>higher\<close> with
  the distance when the rank is the greater number. With the counts alice 10, bob 6,
  carol 1 the ranking is alice, bob, carol whatever the engine, and with the guess 1 bob
  gets \<open>you're actually #2 (6 words) ... 1 position(s) higher than you thought\<close> and
  alice gets \<open>exactly right\<close>.
\<close>

theorem guess_rank_spec:
  assumes "query_error yw = None"
    "rows = yap_ranking yw db (RoomID ev) (start_of_today yw)"
    "ordered_desc (yap_groups db (RoomID ev) (start_of_today yw)) rows"
  shows
    "(Sender ev \<notin> row_sender ` {r \<in> set db. row_room_id r = RoomID ev \<and>
          start_of_today yw \<le> row_ts_ms r \<and> row_msgtype r = ''m.text'' \<and>
          \<not> like_prefix (row_body r) ''[BOT]'' \<and> \<not> like_prefix (row_body r) ''/bot ''} \<longrightarrow>
        queryYapGuess yw db ev guessArg replyLabel = ([], Inr ''you have no messages today!''))
     \<and> (\<forall>p c. p < length rows \<and> rows ! p = (Sender ev, c) \<longrightarrow>
          queryYapGuess yw db ev guessArg replyLabel =
            (case matrix_client yw of
               None \<Rightarrow>
                 ([], Inr (guess_message replyLabel (guess_number guessArg) (int p + 1) c))
             | Some cl \<Rightarrow>
                 ([\<lparr>msg_body = guess_message replyLabel (guess_number guessArg) (int p + 1) c,
                    msg_formatted = [], msg_reply_to = ID ev\<rparr>],
                  (case send_error cl of
                     None \<Rightarrow> Inr []
                   | Some err \<Rightarrow> Inl (''send yap guess reply: '' @ err))))
          \<and> length (filter (\<lambda>g. c < snd g) rows) \<le> p
          \<and> p < length (filter (\<lambda>g. c \<le> snd g) rows))
     \<and> guess_message replyLabel g g c =
          replyLabel @ ''you guessed #'' @ Itoa g @ '' '' @ emdash @
            '' that's exactly right! ('' @ Itoa c @ '' words)''
     \<and> (a < g \<longrightarrow>
          guess_message replyLabel g a c =
            replyLabel @ ''you guessed #'' @ Itoa g @ '' but you're actually #'' @ Itoa a @
              '' ('' @ Itoa c @ '' words) '' @ emdash @ '' '' @ Itoa (g - a) @
              '' position(s) lower than you thought'')
     \<and> (g < a \<longrightarrow>
          guess_message replyLabel g a c =
            replyLabel @ ''you guessed #'' @ Itoa g @ '' but you're actually #'' @ Itoa a @
              '' ('' @ Itoa c @ '' words) '' @ emdash @ '' '' @ Itoa (a - g) @
              '' position(s) higher than you thought'')
     \<and> (mset (yap_groups db (RoomID ev) (start_of_today yw)) =
          mset [(alice, 10), (bob, 6), (carol, 1)] \<longrightarrow>
          rows = [(alice, 10), (bob, 6), (carol, 1)])
     \<and> (mset (yap_groups db (RoomID ev) (start_of_today yw)) =
          mset [(alice, 10), (bob, 6), (carol, 1)] \<and>
          guess_number guessArg = 1 \<and> Sender ev = bob \<longrightarrow>
          queryYapGuess yw db ev guessArg replyLabel =
            (case matrix_client yw of
               None \<Rightarrow>
                 ([], Inr (replyLabel @ ''you guessed #1 but you're actually #2 (6 words) '' @
                           emdash @ '' 1 position(s) higher than you thought''))
             | Some cl \<Rightarrow>
                 ([\<lparr>msg_body = replyLabel @ ''you guessed #1 but you're actually #2 (6 words) '' @
                                 emdash @ '' 1 position(s) higher than you thought'',
                    msg_formatted = [], msg_reply_to = ID ev\<rparr>],
                  (case send_error cl of
                     None \<Rightarrow> Inr []
                   | Some err \<Rightarrow> Inl (''send yap guess reply: '' @ err)))))
     \<and> (mset (yap_groups db (RoomID ev) (start_of_today yw)) =
          mset [(alice, 10), (bob, 6), (carol, 1)] \<and>
          guess_number guessArg = 1 \<and> Sender ev = alice \<longrightarrow>
          queryYapGuess yw db ev guessArg replyLabel =
            (case matrix_client yw of
               None \<Rightarrow>
                 ([], Inr (replyLabel @ ''you guessed #1 '' @ emdash @
                           '' that's exactly right! (10 words)''))
             | Some cl \<Rightarrow>
                 ([\<lparr>msg_body = replyLabel @ ''you guessed #1 '' @ emdash @
                                 '' that's exactly right! (10 words)'',
                    msg_formatted = [], msg_reply_to = ID ev\<rparr>],
                  (case send_error cl of
                     None \<Rightarrow> Inr []
                   | Some err \<Rightarrow> Inl (''send yap guess reply: '' @ err)))))"
proof -
  note o = assms(3)
  have d: "distinct (map fst rows)" using o by (rule ordered_desc_distinct)
  have srt: "sorted_wrt (\<lambda>a b. snd b \<le> snd a) rows" using o by (rule ordered_desc_sorted)
  have sn: "fst ` set rows =
      row_sender ` {r \<in> set db. row_room_id r = RoomID ev \<and> start_of_today yw \<le> row_ts_ms r \<and>
         row_msgtype r = ''m.text'' \<and> \<not> like_prefix (row_body r) ''[BOT]'' \<and>
         \<not> like_prefix (row_body r) ''/bot ''}"
    using ordered_desc_senders [OF o] by (simp add: qualifies_iff)
  have ab: "queryYapGuess yw db ev guessArg replyLabel = ([], Inr ''you have no messages today!'')"
    if "Sender ev \<notin> row_sender ` {r \<in> set db. row_room_id r = RoomID ev \<and>
          start_of_today yw \<le> row_ts_ms r \<and> row_msgtype r = ''m.text'' \<and>
          \<not> like_prefix (row_body r) ''[BOT]'' \<and> \<not> like_prefix (row_body r) ''/bot ''}"
  proof -
    have "Sender ev \<notin> fst ` set rows" using that sn by simp
    then show ?thesis using assms(1,2) by (simp add: queryYapGuess_absent)
  qed
  have pr: "queryYapGuess yw db ev guessArg replyLabel =
            (case matrix_client yw of
               None \<Rightarrow>
                 ([], Inr (guess_message replyLabel (guess_number guessArg) (int p + 1) c))
             | Some cl \<Rightarrow>
                 ([\<lparr>msg_body = guess_message replyLabel (guess_number guessArg) (int p + 1) c,
                    msg_formatted = [], msg_reply_to = ID ev\<rparr>],
                  (case send_error cl of
                     None \<Rightarrow> Inr []
                   | Some err \<Rightarrow> Inl (''send yap guess reply: '' @ err))))
          \<and> length (filter (\<lambda>g. c < snd g) rows) \<le> p
          \<and> p < length (filter (\<lambda>g. c \<le> snd g) rows)"
    if "p < length rows \<and> rows ! p = (Sender ev, c)" for p c
  proof -
    from that have p: "p < length rows" "rows ! p = (Sender ev, c)" by simp_all
    show ?thesis
      using queryYapGuess_present [OF assms(1,2) d p refl, where replyLabel = replyLabel
            and guessArg = guessArg]
        rank_bounds [OF srt p] by simp
  qed
  have un: "rows = [(alice, 10), (bob, 6), (carol, 1)]"
    if "mset (yap_groups db (RoomID ev) (start_of_today yw)) =
        mset [(alice, 10), (bob, 6), (carol, 1)]"
    using o that by (rule ordered_desc_unique) simp
  have m3: "guess_message replyLabel g g c =
          replyLabel @ ''you guessed #'' @ Itoa g @ '' '' @ emdash @
            '' that's exactly right! ('' @ Itoa c @ '' words)''"
    "a < g \<longrightarrow>
          guess_message replyLabel g a c =
            replyLabel @ ''you guessed #'' @ Itoa g @ '' but you're actually #'' @ Itoa a @
              '' ('' @ Itoa c @ '' words) '' @ emdash @ '' '' @ Itoa (g - a) @
              '' position(s) lower than you thought''"
    "g < a \<longrightarrow>
          guess_message replyLabel g a c =
            replyLabel @ ''you guessed #'' @ Itoa g @ '' but you're actually #'' @ Itoa a @
              '' ('' @ Itoa c @ '' words) '' @ emdash @ '' '' @ Itoa (a - g) @
              '' position(s) higher than you thought''"
    by (simp_all add: guess_message_def Let_def)
  have bob: "queryYapGuess yw db ev guessArg replyLabel =
            (case matrix_client yw of
               None \<Rightarrow>
                 ([], Inr (replyLabel @ ''you guessed #1 but you're actually #2 (6 words) '' @
                           emdash @ '' 1 position(s) higher than you thought''))
             | Some cl \<Rightarrow>
                 ([\<lparr>msg_body = replyLabel @ ''you guessed #1 but you're actually #2 (6 words) '' @
                                 emdash @ '' 1 position(s) higher than you thought'',
                    msg_formatted = [], msg_reply_to = ID ev\<rparr>],
                  (case send_error cl of
                     None \<Rightarrow> Inr []
                   | Some err \<Rightarrow> Inl (''send yap guess reply: '' @ err))))"
    if "mset (yap_groups db (RoomID ev) (start_of_today yw)) =
          mset [(alice, 10), (bob, 6), (carol, 1)] \<and>
        guess_number guessArg = 1 \<and> Sender ev = bob"
  proof -
    have "1 < length rows \<and> rows ! 1 = (Sender ev, 6)" using un that by simp
    from pr [OF this] that show ?thesis by (simp add: guess_message_bob split: option.splits)
  qed
  have alice: "queryYapGuess yw db ev guessArg replyLabel =
            (case matrix_client yw of
               None \<Rightarrow>
                 ([], Inr (replyLabel @ ''you guessed #1 '' @ emdash @
                           '' that's exactly right! (10 words)''))
             | Some cl \<Rightarrow>
                 ([\<lparr>msg_body = replyLabel @ ''you guessed #1 '' @ emdash @
                                 '' that's exactly right! (10 words)'',
                    msg_formatted = [], msg_reply_to = ID ev\<rparr>],
                  (case send_error cl of
                     None \<Rightarrow> Inr []
                   | Some err \<Rightarrow> Inl (''send yap guess reply: '' @ err))))"
    if "mset (yap_groups db (RoomID ev) (start_of_today yw)) =
          mset [(alice, 10), (bob, 6), (carol, 1)] \<and>
        guess_number guessArg = 1 \<and> Sender ev = alice"
  proof -
    have "0 < length rows \<and> rows ! 0 = (Sender ev, 10)" using un that by simp
    from pr [OF this] that show ?thesis by (simp add: guess_message_alice split: option.splits)
  qed
  show ?thesis
    using ab pr un m3 bob alice by blast
qed

lemma test_groups:
  "yap_groups test_db ''!testroom:example.com'' 1000 =
     [(''@alice:example.com'', 10), (''@bob:example.com'', 6), (''@carol:example.com'', 1)]"
  by code_simp

lemma test_rows:
  "name_desc [(''@alice:example.com'', 10), (''@bob:example.com'', 6), (''@carol:example.com'', 1)] =
     [(''@alice:example.com'', 10), (''@bob:example.com'', 6), (''@carol:example.com'', 1)]"
  by code_simp

lemma test_guess_bob:
  "QueryTopYappers (test_world test_db None stable_desc) (test_event ''@bob:example.com'')
     ''guess 1'' [] False =
     ([], Inr (''you guessed #1 but you're actually #2 (6 words) '' @ emdash @
               '' 1 position(s) higher than you thought''))"
  by code_simp

lemma test_guess_alice:
  "QueryTopYappers (test_world test_db None stable_desc) (test_event ''@alice:example.com'')
     ''guess 1'' [] False =
     ([], Inr (''you guessed #1 '' @ emdash @ '' that's exactly right! (10 words)''))"
  by code_simp

lemma test_guess_nobody:
  "QueryTopYappers (test_world test_db None stable_desc) (test_event ''@nobody:example.com'')
     ''guess 1'' [] False =
     ([], Inr ''you have no messages today!'')"
  by code_simp

text \<open>
  Claim C3 as stated fails: on the database of the test, the message for bob with the
  guess 1 says \<open>higher\<close>, and the word \<open>lower\<close> is not in it.
\<close>

theorem guess_rank_counterexample:
  "QueryTopYappers (test_world test_db None stable_desc) (test_event ''@bob:example.com'')
     ''guess 1'' [] False =
     ([], Inr (''you guessed #1 but you're actually #2 (6 words) '' @ emdash @
               '' 1 position(s) higher than you thought''))
   \<and> \<not> Contains (''you guessed #1 but you're actually #2 (6 words) '' @ emdash @
               '' 1 position(s) higher than you thought'') ''lower''"
proof -
  have "\<not> Contains (''you guessed #1 but you're actually #2 (6 words) '' @ emdash @
               '' 1 position(s) higher than you thought'') ''lower''"
    by code_simp
  then show ?thesis using test_guess_bob by simp
qed

theorem guess_rank_spec_witness:
  "queryYapGuess (test_world test_db (Some ex_client) name_desc) test_db
     (test_event ''@bob:example.com'') ''1'' ''[BOT] '' =
     ([\<lparr>msg_body = ''[BOT] you guessed #1 but you're actually #2 (6 words) '' @ emdash @
                     '' 1 position(s) higher than you thought'',
        msg_formatted = [], msg_reply_to = ''$ev''\<rparr>], Inr [])
   \<and> queryYapGuess (test_world test_db (Some ex_client) name_desc) test_db
     (test_event ''@nobody:example.com'') ''1'' ''[BOT] '' =
     ([], Inr ''you have no messages today!'')
   \<and> queryYapGuess (test_world busy_db None name_desc) busy_db
     (test_event ''@bob:example.com'') ''2'' [] =
     ([], Inr (''you guessed #2 but you're actually #3 (3 words) '' @ emdash @
               '' 1 position(s) higher than you thought''))"
proof -
  let ?yw = "test_world test_db (Some ex_client) name_desc"
  let ?rows = "[(''@alice:example.com'', 10 :: int), (''@bob:example.com'', 6), (''@carol:example.com'', 1)]"
  have r: "?rows = yap_ranking ?yw test_db (RoomID (test_event s)) (start_of_today ?yw)" for s
    by (simp add: yap_ranking_def test_world_fields test_groups test_rows)
  have o: "ordered_desc (yap_groups test_db (RoomID (test_event s)) (start_of_today ?yw)) ?rows" for s
    using name_desc_ordered [of "yap_groups test_db ''!testroom:example.com'' 1000"]
    by (simp add: test_world_fields test_groups test_rows)
  have g: "guess_number ''1'' = 1" "guess_number ''2'' = 2" by code_simp+
  note t1 = guess_rank_spec [OF test_world_fields(2) r o, where guessArg = "''1''"
      and replyLabel = "''[BOT] ''" and alice = "''@alice:example.com''"
      and bob = "''@bob:example.com''" and carol = "''@carol:example.com''"
      and g = 1 and a = 2 and c = 6]
  have b: "queryYapGuess ?yw test_db (test_event ''@bob:example.com'') ''1'' ''[BOT] '' =
     ([\<lparr>msg_body = ''[BOT] you guessed #1 but you're actually #2 (6 words) '' @ emdash @
                     '' 1 position(s) higher than you thought'',
        msg_formatted = [], msg_reply_to = ''$ev''\<rparr>], Inr [])"
    using t1 [of "''@bob:example.com''", THEN conjunct2, THEN conjunct1, rule_format, of 1 6]
    by (simp add: test_world_fields g guess_message_bob ex_client_def)
  have nb: "''@nobody:example.com'' \<notin> row_sender ` {r \<in> set test_db. row_room_id r = ''!testroom:example.com'' \<and>
          1000 \<le> row_ts_ms r \<and> row_msgtype r = ''m.text'' \<and>
          \<not> like_prefix (row_body r) ''[BOT]'' \<and> \<not> like_prefix (row_body r) ''/bot ''}"
    by (auto simp: test_db_def test_row_def)
  have n: "queryYapGuess ?yw test_db (test_event ''@nobody:example.com'') ''1'' ''[BOT] '' =
     ([], Inr ''you have no messages today!'')"
    using t1 [of "''@nobody:example.com''", THEN conjunct1] nb
    by (simp add: test_world_fields)
  let ?yw2 = "test_world busy_db None name_desc"
  let ?rows2 = "[(''@alice:example.com'', 5 :: int), (''@zed:example.com'', 3), (''@bob:example.com'', 3)]"
  have r2: "?rows2 = yap_ranking ?yw2 busy_db (RoomID (test_event s)) (start_of_today ?yw2)" for s
    by (simp add: yap_ranking_def test_world_fields busy_groups busy_rows)
  have o2: "ordered_desc (yap_groups busy_db (RoomID (test_event s)) (start_of_today ?yw2)) ?rows2" for s
    using name_desc_ordered [of "yap_groups busy_db ''!testroom:example.com'' 1000"]
    by (simp add: test_world_fields busy_groups busy_rows)
  have m: "guess_message [] 2 3 3 =
      ''you guessed #2 but you're actually #3 (3 words) '' @ emdash @
        '' 1 position(s) higher than you thought''"
    by code_simp
  note t2 = guess_rank_spec [OF test_world_fields(2) r2 o2, where guessArg = "''2''"
      and replyLabel = "[]" and alice = "''@alice:example.com''"
      and bob = "''@bob:example.com''" and carol = "''@carol:example.com''"
      and g = 1 and a = 2 and c = 6]
  have z: "queryYapGuess ?yw2 busy_db (test_event ''@bob:example.com'') ''2'' [] =
     ([], Inr (''you guessed #2 but you're actually #3 (3 words) '' @ emdash @
               '' 1 position(s) higher than you thought''))"
    using t2 [of "''@bob:example.com''", THEN conjunct2, THEN conjunct1, rule_format, of 2 3]
    by (simp add: test_world_fields g m)
  from b n z show ?thesis by (simp only: simp_thms)
qed
end
